theory Spec2Isabelle
  imports Complex_Main "HOL-Library.AList"
begin

section \<open>Python strings\<close>

text \<open>
  A Python \<open>str\<close> is modelled as an Isabelle \<open>string\<close>; a character stands for one code
  point below 256. The helpers below are the \<open>str\<close> methods the parsers and writers call.
\<close>

definition is_space :: "char \<Rightarrow> bool" where
  \<comment> \<open>\<open>str.isspace\<close> and the regular expression class \<open>\<bsol>s\<close> on code points below 256\<close>
  "is_space c = (c \<in> set [CHR 0x09, CHR 0x0A, CHR 0x0B, CHR 0x0C, CHR 0x0D,
                           CHR 0x1C, CHR 0x1D, CHR 0x1E, CHR 0x1F, CHR 0x20,
                           CHR 0x85, CHR 0xA0])"

definition lstrip :: "string \<Rightarrow> string" where
  "lstrip s = dropWhile is_space s"

definition rstrip :: "string \<Rightarrow> string" where
  "rstrip s = rev (dropWhile is_space (rev s))"

definition strip :: "string \<Rightarrow> string" where
  "strip s = rstrip (lstrip s)"

definition lower_char :: "char \<Rightarrow> char" where
  "lower_char c =
     (let n = (of_char c :: nat)
      in if (65 \<le> n \<and> n \<le> 90) \<or> (192 \<le> n \<and> n \<le> 222 \<and> n \<noteq> 215)
         then char_of (n + 32) else c)"

definition lower :: "string \<Rightarrow> string" where
  "lower s = map lower_char s"

definition startswith :: "string \<Rightarrow> string \<Rightarrow> bool" where
  "startswith s p = (take (length p) s = p)"

definition endswith :: "string \<Rightarrow> string \<Rightarrow> bool" where
  "endswith s p = (length p \<le> length s \<and> drop (length s - length p) s = p)"

fun contains :: "string \<Rightarrow> string \<Rightarrow> bool" where
  \<comment> \<open>\<open>p in s\<close>\<close>
  "contains [] p = (p = [])"
| "contains (c # cs) p = (startswith (c # cs) p \<or> contains cs p)"

fun split_once :: "string \<Rightarrow> string \<Rightarrow> string \<times> string" where
  \<comment> \<open>\<open>s.split(sep, 1)\<close> for a separator that occurs in \<open>s\<close>: the text before and after
      its first occurrence (all of \<open>s\<close> and nothing when it does not occur)\<close>
  "split_once [] sep = ([], [])"
| "split_once (c # cs) sep =
     (if startswith (c # cs) sep then ([], drop (length sep) (c # cs))
      else (case split_once cs sep of (a, b) \<Rightarrow> (c # a, b)))"

fun split_char :: "char \<Rightarrow> string \<Rightarrow> string list" where
  \<comment> \<open>\<open>s.split(c)\<close> for a one-character separator\<close>
  "split_char d [] = [[]]"
| "split_char d (c # cs) =
     (if c = d then [] # split_char d cs
      else (case split_char d cs of [] \<Rightarrow> [[c]] | p # ps \<Rightarrow> (c # p) # ps))"

fun replace_from :: "string \<Rightarrow> string \<Rightarrow> nat \<Rightarrow> string \<Rightarrow> string" where
  \<comment> \<open>the scan of \<open>str.replace\<close>; the counter is the number of characters of a replaced
      occurrence still to skip\<close>
  "replace_from old new k [] = []"
| "replace_from old new k (c # cs) =
     (if 0 < k then replace_from old new (k - 1) cs
      else if startswith (c # cs) old then new @ replace_from old new (length old - 1) cs
      else c # replace_from old new 0 cs)"

definition replace :: "string \<Rightarrow> string \<Rightarrow> string \<Rightarrow> string" where
  \<comment> \<open>\<open>s.replace(old, new)\<close>: every non-overlapping occurrence, left to right\<close>
  "replace s old new =
     (if old = [] then new @ concat (map (\<lambda>c. c # new) s) else replace_from old new 0 s)"

definition join :: "string \<Rightarrow> string list \<Rightarrow> string" where
  "join sep xs = (case xs of [] \<Rightarrow> [] | y # ys \<Rightarrow> y @ concat (map (\<lambda>z. sep @ z) ys))"

section \<open>Python values\<close>

text \<open>
  A Python \<open>float\<close> is a finite number, an infinity or NaN. Finite floats are exact
  rationals here: the rounding and the range of IEEE doubles are left out, so the special
  values arise only from the literals \<open>inf\<close>, \<open>infinity\<close> and \<open>nan\<close>, and negative zero
  is zero.
\<close>

datatype pyfloat = Finite rat | PosInf | NegInf | NaN

datatype pyval =
    VNone
  | VBool bool
  | VInt int
  | VFloat pyfloat
  | VStr string
  | VList "pyval list"
  | VTuple "pyval list"
  | VDict "(string \<times> pyval) list"

text \<open>\<open>VDict\<close> is the \<open>OrderedDict\<close> that \<open>json.loads\<close> builds for an object.\<close>

definition float_eq :: "pyfloat \<Rightarrow> pyfloat \<Rightarrow> bool" where
  "float_eq a b = (a \<noteq> NaN \<and> b \<noteq> NaN \<and> a = b)"

fun as_number :: "pyval \<Rightarrow> pyfloat option" where
  \<comment> \<open>the numeric value of a \<open>bool\<close>, \<open>int\<close> or \<open>float\<close>\<close>
  "as_number (VBool b) = Some (Finite (if b then 1 else 0))"
| "as_number (VInt i) = Some (Finite (of_int i))"
| "as_number (VFloat f) = Some f"
| "as_number v = None"

definition py_eq_flat :: "pyval \<Rightarrow> pyval \<Rightarrow> bool" where
  \<comment> \<open>\<open>==\<close> when one side is no container: numbers compare by value across
      \<open>bool\<close>, \<open>int\<close> and \<open>float\<close>\<close>
  "py_eq_flat a b =
     (case (as_number a, as_number b) of
        (Some x, Some y) \<Rightarrow> float_eq x y
      | (None, None) \<Rightarrow>
          (case (a, b) of
             (VNone, VNone) \<Rightarrow> True
           | (VStr s, VStr t) \<Rightarrow> s = t
           | _ \<Rightarrow> False)
      | _ \<Rightarrow> False)"

text \<open>
  Python compares the items of two containers with \<open>x is y or x == y\<close>. Object identity
  is modelled by structural equality: in this program a container is compared either with
  itself or with a value of another type.
\<close>

fun py_eq :: "pyval \<Rightarrow> pyval \<Rightarrow> bool"
  and py_eq_list :: "pyval list \<Rightarrow> pyval list \<Rightarrow> bool"
  and py_eq_items :: "(string \<times> pyval) list \<Rightarrow> (string \<times> pyval) list \<Rightarrow> bool" where
  "py_eq (VList xs) b = (case b of VList ys \<Rightarrow> py_eq_list xs ys | _ \<Rightarrow> False)"
| "py_eq (VTuple xs) b = (case b of VTuple ys \<Rightarrow> py_eq_list xs ys | _ \<Rightarrow> False)"
| "py_eq (VDict xs) b = (case b of VDict ys \<Rightarrow> py_eq_items xs ys | _ \<Rightarrow> False)"
| "py_eq VNone b = py_eq_flat VNone b"
| "py_eq (VBool x) b = py_eq_flat (VBool x) b"
| "py_eq (VInt x) b = py_eq_flat (VInt x) b"
| "py_eq (VFloat x) b = py_eq_flat (VFloat x) b"
| "py_eq (VStr x) b = py_eq_flat (VStr x) b"
| "py_eq_list [] ys = (ys = [])"
| "py_eq_list (x # xs) ys =
     (case ys of [] \<Rightarrow> False | y # ys' \<Rightarrow> (x = y \<or> py_eq x y) \<and> py_eq_list xs ys')"
| "py_eq_items [] ys = (ys = [])"
| "py_eq_items (x # xs) ys =
     (case ys of [] \<Rightarrow> False
      | y # ys' \<Rightarrow> fst x = fst y \<and> (snd x = snd y \<or> py_eq (snd x) (snd y)) \<and> py_eq_items xs ys')"

definition py_ne :: "pyval \<Rightarrow> pyval \<Rightarrow> bool" where
  "py_ne a b = (\<not> py_eq a b)"

fun truthy :: "pyval \<Rightarrow> bool" where
  \<comment> \<open>\<open>bool(v)\<close>\<close>
  "truthy VNone = False"
| "truthy (VBool b) = b"
| "truthy (VInt i) = (i \<noteq> 0)"
| "truthy (VFloat f) = (f \<noteq> Finite 0)"
| "truthy (VStr s) = (s \<noteq> [])"
| "truthy (VList xs) = (xs \<noteq> [])"
| "truthy (VTuple xs) = (xs \<noteq> [])"
| "truthy (VDict xs) = (xs \<noteq> [])"

section \<open>FieldState (core/models/field_state.py)\<close>

datatype validation_state = VALID | WARNING | ERROR

record field_state =
  state_original_value :: pyval
  current_value :: pyval
  is_modified :: bool
  modification_time :: "nat option"
  validation_errors :: "string list"
  validation_warnings :: "string list"
  validation_state :: validation_state

text \<open>
  \<open>state_original_value\<close> is \<open>FieldState.original_value\<close> (the name \<open>original_value\<close> is
  kept for \<open>FieldInfo\<close>). \<open>datetime.now()\<close> is the argument \<open>now\<close>.
\<close>

definition FieldState :: "pyval \<Rightarrow> field_state" where
  "FieldState v =
     \<lparr>state_original_value = v, current_value = v, is_modified = False,
      modification_time = None, validation_errors = [], validation_warnings = [],
      validation_state = VALID\<rparr>"

definition set_value :: "nat \<Rightarrow> pyval \<Rightarrow> field_state \<Rightarrow> bool \<times> field_state" where
  "set_value now new_value fs =
     (if py_eq new_value (current_value fs) then (False, fs)
      else
        (let m = py_ne new_value (state_original_value fs)
         in (True,
             fs\<lparr>current_value := new_value,
                is_modified := m,
                modification_time := (if m then Some now else None),
                validation_errors := [],
                validation_warnings := [],
                validation_state := VALID\<rparr>)))"

definition revert :: "field_state \<Rightarrow> bool \<times> field_state" where
  "revert fs =
     (if \<not> is_modified fs then (False, fs)
      else (True,
            fs\<lparr>current_value := state_original_value fs,
               is_modified := False,
               modification_time := None,
               validation_errors := [],
               validation_warnings := [],
               validation_state := VALID\<rparr>))"

definition state_apply_changes :: "field_state \<Rightarrow> field_state" where
  \<comment> \<open>\<open>FieldState.apply_changes\<close>\<close>
  "state_apply_changes fs =
     fs\<lparr>state_original_value := current_value fs,
        is_modified := False,
        modification_time := None\<rparr>"

definition add_validation_error :: "string \<Rightarrow> field_state \<Rightarrow> field_state" where
  "add_validation_error e fs =
     (if e \<notin> set (validation_errors fs)
      then fs\<lparr>validation_errors := validation_errors fs @ [e], validation_state := ERROR\<rparr>
      else fs)"

definition add_validation_warning :: "string \<Rightarrow> field_state \<Rightarrow> field_state" where
  "add_validation_warning e fs =
     (if e \<notin> set (validation_warnings fs)
      then fs\<lparr>validation_warnings := validation_warnings fs @ [e],
              validation_state :=
                (if validation_state fs = VALID then WARNING else validation_state fs)\<rparr>
      else fs)"

section \<open>The builtins \<open>int\<close> and \<open>float\<close> on strings\<close>

datatype exn =
  FileNotFoundError | ValueError | TypeError | OverflowError | AttributeError | JSONDecodeError

definition is_num_space :: "char \<Rightarrow> bool" where
  \<comment> \<open>the whitespace \<open>int\<close> and \<open>float\<close> skip around a literal: the separators
      \<open>0x1C\<close> to \<open>0x1F\<close> are not among it\<close>
  "is_num_space c = (c \<in> set [CHR 0x09, CHR 0x0A, CHR 0x0B, CHR 0x0C, CHR 0x0D, CHR 0x20,
                               CHR 0x85, CHR 0xA0])"

definition num_strip :: "string \<Rightarrow> string" where
  "num_strip s = rev (dropWhile is_num_space (rev (dropWhile is_num_space s)))"

definition is_digit :: "char \<Rightarrow> bool" where
  "is_digit c = (c \<in> set ''0123456789'')"

definition digits_value :: "string \<Rightarrow> nat" where
  "digits_value ds = foldl (\<lambda>a c. 10 * a + (of_char c - 48)) 0 ds"

fun drop_underscores :: "char \<Rightarrow> string \<Rightarrow> string option" where
  \<comment> \<open>a numeric literal may hold single underscores between digits; the first argument
      is the previous character\<close>
  "drop_underscores prev [] = (if prev = CHR ''_'' then None else Some [])"
| "drop_underscores prev (c # cs) =
     (if c = CHR ''_'' then (if is_digit prev then drop_underscores c cs else None)
      else if prev = CHR ''_'' \<and> \<not> is_digit c then None
      else map_option ((#) c) (drop_underscores c cs))"

definition split_sign :: "string \<Rightarrow> bool \<times> string" where
  \<comment> \<open>an optional sign: whether it is a minus, and the rest\<close>
  "split_sign s =
     (case s of
        [] \<Rightarrow> (False, [])
      | c # r \<Rightarrow> if c = CHR ''-'' then (True, r) else if c = CHR ''+'' then (False, r)
                 else (False, s))"

definition py_int :: "string \<Rightarrow> int option" where
  \<comment> \<open>\<open>int(s)\<close>: None is ValueError\<close>
  "py_int s =
     (case drop_underscores (CHR 0x00) (num_strip s) of
        None \<Rightarrow> None
      | Some t \<Rightarrow>
          (case split_sign t of
             (neg, ds) \<Rightarrow>
               if ds \<noteq> [] \<and> list_all is_digit ds
               then Some (if neg then - int (digits_value ds) else int (digits_value ds))
               else None))"

definition parse_exponent :: "string \<Rightarrow> int option" where
  \<comment> \<open>what follows the mantissa: nothing, or \<open>e\<close>, an optional sign and digits\<close>
  "parse_exponent s =
     (case s of
        [] \<Rightarrow> Some 0
      | c # r \<Rightarrow>
          if c = CHR ''e'' \<or> c = CHR ''E'' then
            (case split_sign r of
               (neg, ds) \<Rightarrow>
                 if ds \<noteq> [] \<and> list_all is_digit ds
                 then Some (if neg then - int (digits_value ds) else int (digits_value ds))
                 else None)
          else None)"

definition scale10 :: "nat \<Rightarrow> int \<Rightarrow> rat" where
  "scale10 m e = (if 0 \<le> e then of_nat m * 10 ^ nat e else of_nat m / 10 ^ nat (- e))"

definition parse_decimal :: "string \<Rightarrow> rat option" where
  \<comment> \<open>an unsigned decimal literal: digits, an optional point and fraction, an optional
      exponent; at least one digit in the mantissa\<close>
  "parse_decimal s =
     (let ip = takeWhile is_digit s; r1 = dropWhile is_digit s;
          fp = (case r1 of [] \<Rightarrow> [] | c # r \<Rightarrow> if c = CHR ''.'' then takeWhile is_digit r else []);
          r2 = (case r1 of [] \<Rightarrow> [] | c # r \<Rightarrow> if c = CHR ''.'' then dropWhile is_digit r else r1)
      in if ip = [] \<and> fp = [] then None
         else (case parse_exponent r2 of
                 None \<Rightarrow> None
               | Some e \<Rightarrow> Some (scale10 (digits_value (ip @ fp)) (e - int (length fp)))))"

definition py_float :: "string \<Rightarrow> pyfloat option" where
  \<comment> \<open>\<open>float(s)\<close>: None is ValueError\<close>
  "py_float s =
     (case drop_underscores (CHR 0x00) (num_strip s) of
        None \<Rightarrow> None
      | Some t \<Rightarrow>
          (case split_sign t of
             (neg, body) \<Rightarrow>
               if lower body = ''inf'' \<or> lower body = ''infinity''
               then Some (if neg then NegInf else PosInf)
               else if lower body = ''nan'' then Some NaN
               else (case parse_decimal body of
                       None \<Rightarrow> None
                     | Some q \<Rightarrow> Some (Finite (if neg then - q else q)))))"

section \<open>FieldInfo and ConfigData (core/parsers/json_parser.py)\<close>

datatype field_type = STRING | INTEGER | FLOAT | BOOLEAN | ARRAY | OBJECT

record field_info =
  path :: string
  field_value :: pyval
  description :: string
  field_type :: field_type
  category :: string
  original_value :: pyval
  line_number :: "nat option"
  original_line :: "string option"

text \<open>
  \<open>field_value\<close> is the attribute \<open>value\<close> and \<open>field_type\<close> the attribute \<open>type\<close>.
  \<open>line_number\<close> and \<open>original_line\<close> are attributes only the INI parser sets: None is
  an object without the attribute.
\<close>

definition FieldInfo :: "string \<Rightarrow> pyval \<Rightarrow> string \<Rightarrow> field_type \<Rightarrow> string \<Rightarrow> field_info" where
  "FieldInfo p v d t c =
     \<lparr>path = p, field_value = v, description = d, field_type = t, category = c,
      original_value = v, line_number = None, original_line = None\<rparr>"

record config_data =
  cfg_fields :: "(string \<times> field_info) list"
  categories :: "(string \<times> string list) list"
  descriptions :: "(string \<times> string) list"
  raw_lines :: "string list"

text \<open>
  The ordered dictionaries are association lists; \<open>d[k] = v\<close> is \<open>AList.update\<close>, which
  replaces the entry of \<open>k\<close> in place or appends a new one. The dictionary \<open>types\<close> of
  \<open>ConfigData\<close> is never filled or read and is left out.
\<close>

fun build_categories :: "(string \<times> field_info) list \<Rightarrow> (string \<times> string list) list \<Rightarrow>
    (string \<times> string list) list" where
  \<comment> \<open>the loop of \<open>_build_categories\<close>, the second argument being \<open>categories\<close> so far\<close>
  "build_categories [] cats = cats"
| "build_categories ((field_path, info) # rest) cats =
     build_categories rest
       (AList.update (category info)
          ((case map_of cats (category info) of None \<Rightarrow> [] | Some ps \<Rightarrow> ps) @ [field_path])
          cats)"

section \<open>The INI parser (core/parsers/ini_parser.py)\<close>

definition parse_ini_value :: "string \<Rightarrow> pyval" where
  "parse_ini_value value_str0 =
     (let value_str = strip value_str0
      in if lower value_str \<in> set [''true'', ''on'', ''yes'', ''1''] then VBool True
         else if lower value_str \<in> set [''false'', ''off'', ''no'', ''0''] then VBool False
         else
           (case (if \<not> contains value_str ''.''
                  then map_option VInt (py_int value_str)
                  else map_option VFloat (py_float value_str)) of
              Some v \<Rightarrow> v
            | None \<Rightarrow>
                if startswith value_str ''('' \<and> endswith value_str '')''
                then VTuple
                       (map (\<lambda>part. case py_float part of Some f \<Rightarrow> VFloat f | None \<Rightarrow> VStr part)
                          (map strip (split_char (CHR '','') (butlast (tl value_str)))))
                else VStr value_str))"

record ini_entry =
  entry_value :: pyval
  entry_comment :: string
  entry_line_number :: nat
  entry_original_line :: string

type_synonym ini_data = "(string \<times> (string \<times> ini_entry) list) list"

definition section_match :: "string \<Rightarrow> string option" where
  \<comment> \<open>\<open>re.match(r"^\<bsol>[([^\<bsol>]]+)\<bsol>]", line)\<close>: group 1\<close>
  "section_match line =
     (case line of
        [] \<Rightarrow> None
      | c # r \<Rightarrow>
          if c = CHR ''[''
             \<and> takeWhile (\<lambda>x. x \<noteq> CHR '']'') r \<noteq> []
             \<and> dropWhile (\<lambda>x. x \<noteq> CHR '']'') r \<noteq> []
          then Some (takeWhile (\<lambda>x. x \<noteq> CHR '']'') r)
          else None)"

fun parse_lines :: "nat \<Rightarrow> string list \<Rightarrow> ini_data \<Rightarrow> string option \<Rightarrow> exn + ini_data" where
  \<comment> \<open>the loop of \<open>parse_with_comments\<close> from line \<open>line_num\<close> on, with \<open>data\<close> and
      \<open>current_section\<close> so far; unpacking a split without \<open>=\<close> raises ValueError\<close>
  "parse_lines line_num [] data current_section = Inr data"
| "parse_lines line_num (raw_line # rest) data current_section =
     (let line = strip raw_line
      in if line = [] then parse_lines (Suc line_num) rest data current_section
         else if startswith line ''//'' then parse_lines (Suc line_num) rest data current_section
         else
           (case section_match line of
              Some name \<Rightarrow>
                parse_lines (Suc line_num) rest
                  (if map_of data name = None then data @ [(name, [])] else data) (Some name)
            | None \<Rightarrow>
                (case current_section of
                   None \<Rightarrow> parse_lines (Suc line_num) rest data current_section
                 | Some sec \<Rightarrow>
                     if \<not> contains line ''='' then parse_lines (Suc line_num) rest data current_section
                     else
                       (let line_part = (if contains line ''//''
                                         then strip (fst (split_once line ''//'')) else line);
                            comment = (if contains line ''//''
                                       then strip (snd (split_once line ''//'')) else [])
                        in if \<not> contains line_part ''='' then Inl ValueError
                           else
                             parse_lines (Suc line_num) rest
                               (AList.map_entry sec
                                  (AList.update (strip (fst (split_once line_part ''='')))
                                     \<lparr>entry_value =
                                        parse_ini_value (strip (snd (split_once line_part ''=''))),
                                      entry_comment = comment,
                                      entry_line_number = line_num,
                                      entry_original_line = raw_line\<rparr>)
                                  data)
                               current_section))))"

definition parse_with_comments :: "string list \<Rightarrow> exn + ini_data" where
  "parse_with_comments lines = parse_lines 0 lines [] None"

fun determine_field_type :: "pyval \<Rightarrow> field_type" where
  "determine_field_type (VBool b) = BOOLEAN"
| "determine_field_type (VInt i) = INTEGER"
| "determine_field_type (VFloat f) = FLOAT"
| "determine_field_type (VList xs) = ARRAY"
| "determine_field_type (VTuple xs) = ARRAY"
| "determine_field_type v = STRING"

definition ini_field :: "string \<Rightarrow> string \<Rightarrow> ini_entry \<Rightarrow> field_info" where
  \<comment> \<open>the FieldInfo built in the inner loop of \<open>_build_field_info\<close>\<close>
  "ini_field section_name key value_info =
     (FieldInfo (section_name @ ''.'' @ key) (entry_value value_info) (entry_comment value_info)
        (determine_field_type (entry_value value_info)) section_name)
       \<lparr>line_number := Some (entry_line_number value_info),
        original_line := Some (entry_original_line value_info)\<rparr>"

fun build_section :: "string \<Rightarrow> (string \<times> ini_entry) list \<Rightarrow> (string \<times> field_info) list \<Rightarrow>
    (string \<times> field_info) list" where
  "build_section section_name [] flds = flds"
| "build_section section_name ((key, value_info) # rest) flds =
     build_section section_name rest
       (AList.update (section_name @ ''.'' @ key) (ini_field section_name key value_info) flds)"

fun build_field_info :: "ini_data \<Rightarrow> (string \<times> field_info) list \<Rightarrow> (string \<times> field_info) list" where
  \<comment> \<open>\<open>_build_field_info\<close>, the second argument being \<open>fields\<close> so far\<close>
  "build_field_info [] flds = flds"
| "build_field_info ((section_name, section_data) # rest) flds =
     build_field_info rest (build_section section_name section_data flds)"

definition ini_parse_lines :: "string list \<Rightarrow> exn + config_data" where
  \<comment> \<open>\<open>IniParser.parse_file\<close> once the lines are read\<close>
  "ini_parse_lines lines =
     (case parse_with_comments lines of
        Inl e \<Rightarrow> Inl e
      | Inr parsed_data \<Rightarrow>
          Inr \<lparr>cfg_fields = build_field_info parsed_data [],
               categories = build_categories (build_field_info parsed_data []) [],
               descriptions = [],
               raw_lines = lines\<rparr>)"

section \<open>Flattening parsed JSON (core/parsers/json_parser.py)\<close>

fun preserve_types :: "pyval \<Rightarrow> field_type" where
  "preserve_types (VBool b) = BOOLEAN"
| "preserve_types (VInt i) = INTEGER"
| "preserve_types (VFloat f) = FLOAT"
| "preserve_types (VList xs) = ARRAY"
| "preserve_types (VDict xs) = OBJECT"
| "preserve_types v = STRING"

definition get_description :: "(string \<times> string) list \<Rightarrow> string \<Rightarrow> string \<Rightarrow> string" where
  \<comment> \<open>\<open>descriptions.get(key, "") or descriptions.get(current_path, "")\<close>\<close>
  "get_description descs key current_path =
     (case map_of descs key of
        Some d \<Rightarrow> if d \<noteq> [] then d
                  else (case map_of descs current_path of Some e \<Rightarrow> e | None \<Rightarrow> [])
      | None \<Rightarrow> (case map_of descs current_path of Some e \<Rightarrow> e | None \<Rightarrow> []))"

fun adopt_nested :: "string \<Rightarrow> (string \<times> field_info) list \<Rightarrow> (string \<times> field_info) list \<Rightarrow>
    (string \<times> field_info) list" where
  \<comment> \<open>the loop over \<open>nested_fields.items()\<close>: each nested field gets the category and
      is stored under its path\<close>
  "adopt_nested cat [] flds = flds"
| "adopt_nested cat ((nested_path, nested_field) # rest) flds =
     adopt_nested cat rest (AList.update nested_path (nested_field\<lparr>category := cat\<rparr>) flds)"

definition join_path :: "string \<Rightarrow> string \<Rightarrow> string" where
  \<comment> \<open>\<open>current_path\<close>\<close>
  "join_path parent_path key = (if parent_path \<noteq> [] then parent_path @ ''.'' @ key else key)"

definition leaf_field :: "(string \<times> string) list \<Rightarrow> string \<Rightarrow> string \<Rightarrow> pyval \<Rightarrow> field_info" where
  \<comment> \<open>the FieldInfo of a regular field\<close>
  "leaf_field descs parent_path key v =
     FieldInfo (join_path parent_path key) v
       (get_description descs key (join_path parent_path key))
       (preserve_types v)
       (if parent_path \<noteq> [] then parent_path else ''General'')"

fun build_fields :: "(string \<times> pyval) list \<Rightarrow> (string \<times> string) list \<Rightarrow> string \<Rightarrow>
    (string \<times> field_info) list \<Rightarrow> (string \<times> field_info) list" where
  \<comment> \<open>the loop of \<open>build_field_hierarchy\<close> over \<open>data.items()\<close>, the last argument
      being \<open>fields\<close> so far\<close>
  "build_fields [] descs parent_path flds = flds"
| "build_fields ((key, VDict sub) # rest) descs parent_path flds =
     build_fields rest descs parent_path
       (adopt_nested key (build_fields sub descs (join_path parent_path key) []) flds)"
| "build_fields ((key, v) # rest) descs parent_path flds =
     build_fields rest descs parent_path
       (AList.update (join_path parent_path key) (leaf_field descs parent_path key v) flds)"

definition build_field_hierarchy :: "(string \<times> pyval) list \<Rightarrow> (string \<times> string) list \<Rightarrow> string \<Rightarrow>
    (string \<times> field_info) list" where
  "build_field_hierarchy data descs parent_path = build_fields data descs parent_path []"

definition json_config_data :: "string list \<Rightarrow> (string \<times> string) list \<Rightarrow> pyval \<Rightarrow> exn + config_data" where
  \<comment> \<open>\<open>JsonWithCommentsParser.parse_file\<close> from the point where the lines are read, the
      descriptions extracted and the cleaned text decoded by \<open>json.loads\<close>; a document
      that is no object has no \<open>items\<close>\<close>
  "json_config_data lines descs json_data =
     (case json_data of
        VDict items \<Rightarrow>
          Inr \<lparr>cfg_fields = build_field_hierarchy items descs [],
               categories = build_categories (build_field_hierarchy items descs []) [],
               descriptions = descs,
               raw_lines = lines\<rparr>
      | _ \<Rightarrow> Inl AttributeError)"

section \<open>Formatting values\<close>

text \<open>
  The text Python gives a float (\<open>str\<close> and the format \<open>.3f\<close>), \<open>str\<close> of a container and
  \<open>json.dumps\<close> belong to the Python library; the writers take them as a parameter.
\<close>

record pylib =
  float_str :: "pyfloat \<Rightarrow> string"
  float_fmt3 :: "pyfloat \<Rightarrow> string"
  container_str :: "pyval \<Rightarrow> string"
  json_dumps :: "pyval \<Rightarrow> string"

fun nat_str :: "nat \<Rightarrow> string" where
  "nat_str n =
     (if n < 10 then [char_of (48 + n)] else nat_str (n div 10) @ [char_of (48 + n mod 10)])"

definition int_str :: "int \<Rightarrow> string" where
  "int_str i = (if i < 0 then CHR ''-'' # nat_str (nat (- i)) else nat_str (nat i))"

fun py_str :: "pylib \<Rightarrow> pyval \<Rightarrow> string" where
  \<comment> \<open>\<open>str(v)\<close>\<close>
  "py_str lib VNone = ''None''"
| "py_str lib (VBool b) = (if b then ''True'' else ''False'')"
| "py_str lib (VInt i) = int_str i"
| "py_str lib (VFloat f) = float_str lib f"
| "py_str lib (VStr s) = s"
| "py_str lib v = container_str lib v"

fun format_value_for_json :: "pylib \<Rightarrow> pyval \<Rightarrow> field_type \<Rightarrow> string" where
  "format_value_for_json lib v STRING = ''\"'' @ py_str lib v @ ''\"''"
| "format_value_for_json lib v BOOLEAN = (if truthy v then ''true'' else ''false'')"
| "format_value_for_json lib v INTEGER = py_str lib v"
| "format_value_for_json lib v FLOAT = py_str lib v"
| "format_value_for_json lib v ARRAY = json_dumps lib v"
| "format_value_for_json lib v OBJECT = json_dumps lib v"

definition format_tuple_item :: "pylib \<Rightarrow> pyval \<Rightarrow> string" where
  "format_tuple_item lib v = (case v of VFloat f \<Rightarrow> float_fmt3 lib f | _ \<Rightarrow> py_str lib v)"

definition format_value_for_ini :: "pylib \<Rightarrow> pyval \<Rightarrow> field_type \<Rightarrow> string" where
  "format_value_for_ini lib v t =
     (if t = BOOLEAN then (if truthy v then ''1'' else ''0'')
      else (case v of
              VTuple vs \<Rightarrow>
                if t = ARRAY then ''('' @ join '', '' (map (format_tuple_item lib) vs) @ '')''
                else py_str lib v
            | _ \<Rightarrow> py_str lib v))"

section \<open>The writers\<close>

definition find_field :: "(string \<Rightarrow> bool) \<Rightarrow> (string \<times> field_info) list \<Rightarrow> field_info option" where
  \<comment> \<open>the search loop of both writers: the first field, in table order, whose path
      passes the test\<close>
  "find_field ok flds = map_option snd (List.find (\<lambda>entry. ok (fst entry)) flds)"

definition match_field_here :: "string \<Rightarrow> (string \<times> string) option" where
  \<comment> \<open>the pattern \<open>"([^"]+)":\<bsol>s*([^,}]+)\<close> matched at the start of the text: groups 1
      and 2. When the whitespace run is followed by a comma, a brace or the end, the
      pattern gives its last whitespace character to group 2.\<close>
  "match_field_here s =
     (case s of
        [] \<Rightarrow> None
      | q # r \<Rightarrow>
          (let key = takeWhile (\<lambda>x. x \<noteq> CHR ''\"'') r;
               after = dropWhile (\<lambda>x. x \<noteq> CHR ''\"'') r;
               t = drop 2 after;
               ws = takeWhile is_space t;
               v = takeWhile (\<lambda>x. x \<noteq> CHR '','' \<and> x \<noteq> CHR ''}'') (dropWhile is_space t)
           in if q = CHR ''\"'' \<and> key \<noteq> [] \<and> take 2 after = ''\":''
              then (if v \<noteq> [] then Some (key, v)
                    else if ws \<noteq> [] then Some (key, [last ws])
                    else None)
              else None))"

fun field_search :: "string \<Rightarrow> (string \<times> string) option" where
  \<comment> \<open>\<open>re.search\<close> with that pattern: the leftmost match\<close>
  "field_search [] = None"
| "field_search (c # cs) =
     (case match_field_here (c # cs) of Some g \<Rightarrow> Some g | None \<Rightarrow> field_search cs)"

definition json_patch_line :: "pylib \<Rightarrow> (string \<times> field_info) list \<Rightarrow> string \<Rightarrow> string" where
  \<comment> \<open>one round of the loop of \<open>JsonWithCommentsParser.write_preserving_structure\<close>\<close>
  "json_patch_line lib flds line =
     (case field_search line of
        None \<Rightarrow> line
      | Some (field_name, old_value) \<Rightarrow>
          (case find_field (\<lambda>field_path. endswith field_path field_name \<or> field_path = field_name)
                  flds of
             None \<Rightarrow> line
           | Some info \<Rightarrow>
               if py_ne (field_value info) (original_value info)
               then replace line old_value
                      (format_value_for_json lib (field_value info) (field_type info))
               else line))"

definition json_new_lines :: "pylib \<Rightarrow> config_data \<Rightarrow> string list" where
  "json_new_lines lib config = map (json_patch_line lib (cfg_fields config)) (raw_lines config)"

definition key_match :: "string \<Rightarrow> string option" where
  \<comment> \<open>\<open>re.match(r"^([^=]+)=", line_stripped)\<close>: group 1\<close>
  "key_match s =
     (if takeWhile (\<lambda>x. x \<noteq> CHR ''='') s \<noteq> [] \<and> dropWhile (\<lambda>x. x \<noteq> CHR ''='') s \<noteq> []
      then Some (takeWhile (\<lambda>x. x \<noteq> CHR ''='') s) else None)"

definition ini_patch_line :: "pylib \<Rightarrow> (string \<times> field_info) list \<Rightarrow> string \<Rightarrow> string" where
  \<comment> \<open>one round of the loop of \<open>IniParser.write_preserving_structure\<close>\<close>
  "ini_patch_line lib flds line =
     (let line_stripped = strip line
      in if line_stripped = [] \<or> startswith line_stripped ''//'' \<or> startswith line_stripped ''[''
         then line
         else if \<not> contains line_stripped ''='' then line
         else
           (case key_match line_stripped of
              None \<Rightarrow> line
            | Some g \<Rightarrow>
                (case find_field (\<lambda>field_path. endswith field_path (''.'' @ strip g)) flds of
                   None \<Rightarrow> line
                 | Some info \<Rightarrow>
                     if line_number info \<noteq> None
                        \<and> py_ne (field_value info) (original_value info)
                     then (if contains line ''//''
                           then strip g @ ''=''
                                @ format_value_for_ini lib (field_value info) (field_type info)
                                @ '' //'' @ snd (split_once line ''//'')
                           else strip g @ ''=''
                                @ format_value_for_ini lib (field_value info) (field_type info)
                                @ [CHR 0x0A])
                     else line)))"

definition ini_new_lines :: "pylib \<Rightarrow> config_data \<Rightarrow> string list" where
  "ini_new_lines lib config = map (ini_patch_line lib (cfg_fields config)) (raw_lines config)"

section \<open>Files\<close>

text \<open>
  Both parsers open a file with \<open>open(path, "r", encoding="utf-8")\<close> and both writers
  with \<open>open(path, "w", encoding="utf-8")\<close>, that is, in text mode with the default
  newline handling. A file holds its content as text: decoding UTF-8 is one-to-one on the
  files the parsers accept, so two files have the same bytes exactly when they hold the same
  text. Reading translates every \<open>CR LF\<close> and every lone \<open>CR\<close> to \<open>LF\<close> and
  \<open>readlines\<close> cuts after each \<open>LF\<close>; writing replaces every \<open>LF\<close> by the line
  separator of the platform, \<open>os.linesep\<close>. Opening a path of \<open>unwritable\<close> for writing
  raises; \<open>write_log\<close> lists, in order, the paths a write was attempted on.
\<close>

record world =
  files :: "string \<Rightarrow> string option"
  linesep :: string
  unwritable :: "string set"
  write_log :: "string list"

fun universal_newlines :: "string \<Rightarrow> string" where
  \<comment> \<open>what a text-mode read makes of the content\<close>
  "universal_newlines [] = []"
| "universal_newlines [c] = (if c = CHR 0x0D then [CHR 0x0A] else [c])"
| "universal_newlines (c # d # cs) =
     (if c = CHR 0x0D \<and> d = CHR 0x0A then CHR 0x0A # universal_newlines cs
      else if c = CHR 0x0D then CHR 0x0A # universal_newlines (d # cs)
      else c # universal_newlines (d # cs))"

fun split_lines :: "string \<Rightarrow> string list" where
  \<comment> \<open>the lines of a text, each with its terminator\<close>
  "split_lines [] = []"
| "split_lines (c # cs) =
     (if c = CHR 0x0A then [c] # split_lines cs
      else (case split_lines cs of [] \<Rightarrow> [[c]] | l # ls \<Rightarrow> (c # l) # ls))"

definition readlines :: "string \<Rightarrow> string list" where
  \<comment> \<open>\<open>f.readlines()\<close> on a file with that content\<close>
  "readlines content = split_lines (universal_newlines content)"

definition translate_newlines :: "string \<Rightarrow> string \<Rightarrow> string" where
  \<comment> \<open>what a text-mode write makes of a string\<close>
  "translate_newlines sep text = concat (map (\<lambda>c. if c = CHR 0x0A then sep else [c]) text)"

definition write_file :: "string \<Rightarrow> string list \<Rightarrow> world \<Rightarrow> bool \<times> world" where
  \<comment> \<open>the end of both \<open>write_preserving_structure\<close>: open, \<open>writelines\<close>, and the
      handler that turns an exception into False\<close>
  "write_file output_path new_lines w =
     (if output_path \<in> unwritable w
      then (False, w\<lparr>write_log := write_log w @ [output_path]\<rparr>)
      else (True, w\<lparr>files := (files w)(output_path \<mapsto>
                                concat (map (translate_newlines (linesep w)) new_lines)),
                     write_log := write_log w @ [output_path]\<rparr>))"

definition json_write_preserving_structure :: "pylib \<Rightarrow> config_data \<Rightarrow> string \<Rightarrow> world \<Rightarrow> bool \<times> world" where
  "json_write_preserving_structure lib config output_path w =
     write_file output_path (json_new_lines lib config) w"

definition ini_write_preserving_structure :: "pylib \<Rightarrow> config_data \<Rightarrow> string \<Rightarrow> world \<Rightarrow> bool \<times> world" where
  "ini_write_preserving_structure lib config output_path w =
     write_file output_path (ini_new_lines lib config) w"

definition ini_parse_file :: "world \<Rightarrow> string \<Rightarrow> exn + config_data" where
  \<comment> \<open>\<open>IniParser.parse_file\<close>\<close>
  "ini_parse_file w filepath =
     (case files w filepath of
        None \<Rightarrow> Inl FileNotFoundError
      | Some content \<Rightarrow> ini_parse_lines (readlines content))"

section \<open>ConfigurationModel (core/models/configuration_model.py)\<close>

datatype event =
    ConfigurationLoaded
  | FieldChanged string pyval
  | FieldReverted string
  | AllChangesReverted nat
  | ChangesApplied

record model =
  json_config :: "config_data option"
  ini_config :: "config_data option"
  field_states :: "(string \<times> field_state) list"
  json_file_path :: "string option"
  ini_file_path :: "string option"
  modified_fields :: "string set"
  notifications :: "event list"

text \<open>
  \<open>notifications\<close> is the sequence of events \<open>_notify_observers\<close> has delivered; an
  observer's exception is caught there and changes nothing of the model.
\<close>

definition new_model :: model where
  \<comment> \<open>\<open>ConfigurationModel.__init__\<close>\<close>
  "new_model =
     \<lparr>json_config = None, ini_config = None, field_states = [], json_file_path = None,
      ini_file_path = None, modified_fields = {}, notifications = []\<rparr>"

definition notify_observers :: "event \<Rightarrow> model \<Rightarrow> model" where
  "notify_observers e m = m\<lparr>notifications := notifications m @ [e]\<rparr>"

fun init_states :: "string \<Rightarrow> (string \<times> field_info) list \<Rightarrow> (string \<times> field_state) list \<Rightarrow>
    (string \<times> field_state) list" where
  \<comment> \<open>one loop of \<open>_initialize_field_states\<close>, with the prefix put before each path\<close>
  "init_states pre [] states = states"
| "init_states pre ((field_path, info) # rest) states =
     init_states pre rest (AList.update (pre @ field_path) (FieldState (field_value info)) states)"

definition initialize_field_states :: "model \<Rightarrow> model" where
  "initialize_field_states m =
     m\<lparr>field_states :=
         init_states ''ini.'' (case ini_config m of None \<Rightarrow> [] | Some c \<Rightarrow> cfg_fields c)
           (init_states [] (case json_config m of None \<Rightarrow> [] | Some c \<Rightarrow> cfg_fields c) []),
       modified_fields := {}\<rparr>"

type_synonym json_parser = "world \<Rightarrow> string \<Rightarrow> (exn + config_data) \<times> world"

text \<open>
  \<open>JsonWithCommentsParser.parse_file\<close> rests on \<open>json.loads\<close> and on the \<open>re\<close> module;
  \<open>load_configuration\<close> takes it as a parameter. It returns the world as well, since a
  decoding failure writes the cleaned text to a file beside the input.
\<close>

definition load_configuration :: "json_parser \<Rightarrow> string \<Rightarrow> string \<Rightarrow> world \<times> model \<Rightarrow>
    bool \<times> world \<times> model" where
  "load_configuration parse_json json_path ini_path wm =
     (case wm of
        (w, m) \<Rightarrow>
          (case parse_json w json_path of
             (Inl e, w1) \<Rightarrow> (False, w1, m)
           | (Inr jc, w1) \<Rightarrow>
               (case ini_parse_file w1 ini_path of
                  Inl e \<Rightarrow> (False, w1, m\<lparr>json_config := Some jc, json_file_path := Some json_path\<rparr>)
                | Inr ic \<Rightarrow>
                    (True, w1,
                     notify_observers ConfigurationLoaded
                       (initialize_field_states
                          (m\<lparr>json_config := Some jc, json_file_path := Some json_path,
                             ini_config := Some ic, ini_file_path := Some ini_path\<rparr>))))))"

definition get_field_value :: "model \<Rightarrow> string \<Rightarrow> pyval" where
  "get_field_value m field_path =
     (case map_of (field_states m) field_path of
        None \<Rightarrow> VNone
      | Some fs \<Rightarrow> current_value fs)"

definition truncate :: "rat \<Rightarrow> int" where
  \<comment> \<open>rounding towards zero\<close>
  "truncate q = (if 0 \<le> q then \<lfloor>q\<rfloor> else - \<lfloor>- q\<rfloor>)"

fun int_of_float :: "pyfloat \<Rightarrow> exn + int" where
  \<comment> \<open>\<open>int(x)\<close> for a float\<close>
  "int_of_float (Finite q) = Inr (truncate q)"
| "int_of_float NaN = Inl ValueError"
| "int_of_float PosInf = Inl OverflowError"
| "int_of_float NegInf = Inl OverflowError"

fun to_int :: "pyval \<Rightarrow> exn + int" where
  \<comment> \<open>\<open>int(v)\<close>\<close>
  "to_int (VBool b) = Inr (if b then 1 else 0)"
| "to_int (VInt i) = Inr i"
| "to_int (VFloat f) = int_of_float f"
| "to_int (VStr s) = (case py_int s of None \<Rightarrow> Inl ValueError | Some i \<Rightarrow> Inr i)"
| "to_int v = Inl TypeError"

fun to_float :: "pyval \<Rightarrow> exn + pyfloat" where
  \<comment> \<open>\<open>float(v)\<close>\<close>
  "to_float (VBool b) = Inr (Finite (if b then 1 else 0))"
| "to_float (VInt i) = Inr (Finite (of_int i))"
| "to_float (VFloat f) = Inr f"
| "to_float (VStr s) = (case py_float s of None \<Rightarrow> Inl ValueError | Some f \<Rightarrow> Inr f)"
| "to_float v = Inl TypeError"

definition caught :: "exn \<Rightarrow> bool" where
  \<comment> \<open>\<open>except (ValueError, TypeError)\<close>\<close>
  "caught e = (e = ValueError \<or> e = TypeError)"

definition convert_to_int :: "pyval \<Rightarrow> exn + pyval" where
  \<comment> \<open>the branch of \<open>_convert_value_to_type\<close> for an \<open>int\<close> original\<close>
  "convert_to_int v =
     (case (case v of
              VStr s \<Rightarrow>
                if strip s = [] then Inr 0
                else (case to_float v of Inl e \<Rightarrow> Inl e | Inr f \<Rightarrow> int_of_float f)
            | _ \<Rightarrow> to_int v) of
        Inr i \<Rightarrow> Inr (VInt i)
      | Inl e \<Rightarrow> if caught e then Inr (VInt 0) else Inl e)"

definition convert_to_float :: "pyval \<Rightarrow> exn + pyval" where
  \<comment> \<open>the branch for a \<open>float\<close> original\<close>
  "convert_to_float v =
     (case (case v of
              VStr s \<Rightarrow> if strip s = [] then Inr (Finite 0) else to_float v
            | _ \<Rightarrow> to_float v) of
        Inr f \<Rightarrow> Inr (VFloat f)
      | Inl e \<Rightarrow> if caught e then Inr (VFloat (Finite 0)) else Inl e)"

fun convert_value_to_type :: "pylib \<Rightarrow> pyval \<Rightarrow> pyval \<Rightarrow> exn + pyval" where
  \<comment> \<open>\<open>_convert_value_to_type(value, original_value)\<close>; \<open>bool\<close> is tested before
      \<open>int\<close>, as in the source\<close>
  "convert_value_to_type lib v (VBool b) = Inr (VBool (truthy v))"
| "convert_value_to_type lib v (VInt i) = convert_to_int v"
| "convert_value_to_type lib v (VFloat f) = convert_to_float v"
| "convert_value_to_type lib v orig = Inr (VStr (if v = VNone then [] else py_str lib v))"

definition set_info_value :: "string \<Rightarrow> pyval \<Rightarrow> config_data \<Rightarrow> config_data" where
  \<comment> \<open>\<open>config.fields[p].value = v\<close> when \<open>p in config.fields\<close>\<close>
  "set_info_value p v config =
     (if map_of (cfg_fields config) p = None then config
      else config\<lparr>cfg_fields := AList.map_entry p (\<lambda>info. info\<lparr>field_value := v\<rparr>) (cfg_fields config)\<rparr>)"

definition update_config_data :: "string \<Rightarrow> pyval \<Rightarrow> model \<Rightarrow> model" where
  "update_config_data field_path v m =
     (if startswith field_path ''ini.''
      then m\<lparr>ini_config := map_option (set_info_value (drop 4 field_path) v) (ini_config m)\<rparr>
      else m\<lparr>json_config := map_option (set_info_value field_path v) (json_config m)\<rparr>)"

definition set_field_value :: "pylib \<Rightarrow> nat \<Rightarrow> string \<Rightarrow> pyval \<Rightarrow> model \<Rightarrow> exn + bool \<times> model" where
  \<comment> \<open>\<open>Inl\<close> is an exception that leaves \<open>set_field_value\<close>\<close>
  "set_field_value lib now field_path v m =
     (case map_of (field_states m) field_path of
        None \<Rightarrow> Inr (False, m)
      | Some fs \<Rightarrow>
          (case convert_value_to_type lib v (state_original_value fs) of
             Inl e \<Rightarrow> Inl e
           | Inr converted_value \<Rightarrow>
               (case set_value now converted_value fs of
                  (changed, fs') \<Rightarrow>
                    if changed
                    then Inr (True,
                              notify_observers (FieldChanged field_path converted_value)
                                (update_config_data field_path converted_value
                                   (m\<lparr>field_states := AList.update field_path fs' (field_states m),
                                      modified_fields :=
                                        (if is_modified fs'
                                         then insert field_path (modified_fields m)
                                         else modified_fields m - {field_path})\<rparr>)))
                    else Inr (False, m))))"

definition revert_field :: "string \<Rightarrow> model \<Rightarrow> bool \<times> model" where
  "revert_field field_path m =
     (case map_of (field_states m) field_path of
        None \<Rightarrow> (False, m)
      | Some fs \<Rightarrow>
          (case revert fs of
             (reverted, fs') \<Rightarrow>
               if reverted
               then (True,
                     notify_observers (FieldReverted field_path)
                       (update_config_data field_path (current_value fs')
                          (m\<lparr>field_states := AList.update field_path fs' (field_states m),
                             modified_fields := modified_fields m - {field_path}\<rparr>)))
               else (False, m)))"

definition promote :: "string set \<Rightarrow> (string \<times> field_state) list \<Rightarrow> (string \<times> field_state) list" where
  \<comment> \<open>the loop of \<open>apply_changes\<close> over the modified paths: each one that has a
      FieldState gets \<open>FieldState.apply_changes\<close>\<close>
  "promote modified states =
     map (\<lambda>entry. if fst entry \<in> modified then (fst entry, state_apply_changes (snd entry))
                   else entry) states"

definition apply_changes :: "pylib \<Rightarrow> world \<times> model \<Rightarrow> (bool \<times> string option) \<times> world \<times> model" where
  "apply_changes lib wm =
     (case wm of
        (w, m) \<Rightarrow>
          (case (case (json_config m, json_file_path m) of
                   (Some jc, Some jp) \<Rightarrow> json_write_preserving_structure lib jc jp w
                 | _ \<Rightarrow> (True, w)) of
             (False, w1) \<Rightarrow> ((False, Some ''Failed to write JSON configuration''), w1, m)
           | (True, w1) \<Rightarrow>
               (case (case (ini_config m, ini_file_path m) of
                        (Some ic, Some ip) \<Rightarrow> ini_write_preserving_structure lib ic ip w1
                      | _ \<Rightarrow> (True, w1)) of
                  (False, w2) \<Rightarrow> ((False, Some ''Failed to write INI configuration''), w2, m)
                | (True, w2) \<Rightarrow>
                    ((True, None), w2,
                     notify_observers ChangesApplied
                       (m\<lparr>field_states := promote (modified_fields m) (field_states m),
                          modified_fields := {}\<rparr>)))))"

section \<open>The comparison engine (core/comparison_engine.py)\<close>

fun float_sub :: "pyfloat \<Rightarrow> pyfloat \<Rightarrow> pyfloat" where
  "float_sub NaN b = NaN"
| "float_sub a NaN = NaN"
| "float_sub (Finite x) (Finite y) = Finite (x - y)"
| "float_sub (Finite x) PosInf = NegInf"
| "float_sub (Finite x) NegInf = PosInf"
| "float_sub PosInf PosInf = NaN"
| "float_sub PosInf b = PosInf"
| "float_sub NegInf NegInf = NaN"
| "float_sub NegInf b = NegInf"

fun float_abs :: "pyfloat \<Rightarrow> pyfloat" where
  "float_abs (Finite x) = Finite \<bar>x\<bar>"
| "float_abs NegInf = PosInf"
| "float_abs a = a"

fun float_less :: "pyfloat \<Rightarrow> pyfloat \<Rightarrow> bool" where
  "float_less NaN b = False"
| "float_less a NaN = False"
| "float_less (Finite x) (Finite y) = (x < y)"
| "float_less a PosInf = (a \<noteq> PosInf)"
| "float_less NegInf b = (b \<noteq> NegInf)"
| "float_less a b = False"

definition tolerance :: pyfloat where
  "tolerance = Finite (1 / 10 ^ 10)"

definition is_number :: "pyval \<Rightarrow> bool" where
  \<comment> \<open>\<open>isinstance(v, (int, float))\<close>: a \<open>bool\<close> is an \<open>int\<close>\<close>
  "is_number v = (as_number v \<noteq> None)"

definition is_float :: "pyval \<Rightarrow> bool" where
  "is_float v = (case v of VFloat f \<Rightarrow> True | _ \<Rightarrow> False)"

definition number_of :: "pyval \<Rightarrow> pyfloat" where
  \<comment> \<open>\<open>float(v)\<close> for a number\<close>
  "number_of v = (case as_number v of Some f \<Rightarrow> f | None \<Rightarrow> NaN)"

definition scalars_equal :: "pyval \<Rightarrow> pyval \<Rightarrow> bool" where
  \<comment> \<open>\<open>_values_equal\<close> when the first value is neither a list nor a tuple: the branches
      in the order of the source (the \<open>bool\<close> branch comes after the numeric one and is
      never reached)\<close>
  "scalars_equal a b =
     (if a = VNone \<and> b = VNone then True
      else if a = VNone \<or> b = VNone then False
      else if is_number a \<and> is_number b then
        (if is_float a \<or> is_float b
         then float_less (float_abs (float_sub (number_of a) (number_of b))) tolerance
         else py_eq a b)
      else (case (a, b) of
              (VStr s, VStr t) \<Rightarrow> strip s = strip t
            | _ \<Rightarrow> py_eq a b))"

fun values_equal :: "pyval \<Rightarrow> pyval \<Rightarrow> bool"
  and all_equal :: "pyval list \<Rightarrow> pyval list \<Rightarrow> bool" where
  \<comment> \<open>\<open>_values_equal\<close>; \<open>all_equal\<close> is \<open>all(... for v1, v2 in zip(value1, value2))\<close>\<close>
  "values_equal (VList xs) b =
     (case b of
        VList ys \<Rightarrow> length xs = length ys \<and> all_equal xs ys
      | VTuple ys \<Rightarrow> length xs = length ys \<and> all_equal xs ys
      | VNone \<Rightarrow> False
      | _ \<Rightarrow> py_eq (VList xs) b)"
| "values_equal (VTuple xs) b =
     (case b of
        VList ys \<Rightarrow> length xs = length ys \<and> all_equal xs ys
      | VTuple ys \<Rightarrow> length xs = length ys \<and> all_equal xs ys
      | VNone \<Rightarrow> False
      | _ \<Rightarrow> py_eq (VTuple xs) b)"
| "values_equal VNone b = scalars_equal VNone b"
| "values_equal (VBool x) b = scalars_equal (VBool x) b"
| "values_equal (VInt x) b = scalars_equal (VInt x) b"
| "values_equal (VFloat x) b = scalars_equal (VFloat x) b"
| "values_equal (VStr x) b = scalars_equal (VStr x) b"
| "values_equal (VDict x) b = scalars_equal (VDict x) b"
| "all_equal [] ys = True"
| "all_equal (x # xs) ys =
     (case ys of [] \<Rightarrow> True | y # ys' \<Rightarrow> values_equal x y \<and> all_equal xs ys')"

section \<open>Predicates of the statements\<close>

definition clean :: "(string \<times> field_info) list \<Rightarrow> bool" where
  \<comment> \<open>no field of the table passes the writers' dirty check
      \<open>field_info.value != field_info.original_value\<close>\<close>
  "clean flds = (\<forall>entry \<in> set flds. \<not> py_ne (field_value (snd entry)) (original_value (snd entry)))"

fun nan_free :: "pyval \<Rightarrow> bool"
  and nan_free_items :: "(string \<times> pyval) list \<Rightarrow> bool" where
  \<comment> \<open>no member of the document, at any depth of objects, is the float NaN (which JSON
      does not have and \<open>json.loads\<close> accepts)\<close>
  "nan_free (VFloat f) = (f \<noteq> NaN)"
| "nan_free (VDict items) = nan_free_items items"
| "nan_free v = True"
| "nan_free_items [] = True"
| "nan_free_items (kv # rest) = (nan_free (snd kv) \<and> nan_free_items rest)"

definition entries_ok :: "ini_data \<Rightarrow> bool" where
  \<comment> \<open>an invariant of \<open>parse_with_comments\<close>: no stored value is NaN\<close>
  "entries_ok data = (\<forall>sec \<in> set data. \<forall>e \<in> set (snd sec). entry_value (snd e) \<noteq> VFloat NaN)"

definition values_ok :: "(string \<times> field_info) list \<Rightarrow> bool" where
  \<comment> \<open>every field still holds the value it was built with, and that value is not NaN\<close>
  "values_ok flds =
     (\<forall>entry \<in> set flds. field_value (snd entry) = original_value (snd entry)
                          \<and> field_value (snd entry) \<noteq> VFloat NaN)"

definition top_level_category :: "(string \<times> pyval) list \<Rightarrow> (string \<times> string) list \<Rightarrow>
    string \<times> field_info \<Rightarrow> bool" where
  \<comment> \<open>the entry is a scalar member of the document with category General, or lies inside
      a member object of the document and has that member's key as category\<close>
  "top_level_category items descs entry =
     ((\<exists>v. (fst entry, v) \<in> set items \<and> (\<forall>sub. v \<noteq> VDict sub)
            \<and> category (snd entry) = ''General'')
      \<or> (\<exists>k sub. (k, VDict sub) \<in> set items \<and> category (snd entry) = k
            \<and> fst entry \<in> fst ` set (build_field_hierarchy sub descs k)))"


definition stored_after :: "pylib \<Rightarrow> nat \<Rightarrow> string \<Rightarrow> pyval \<Rightarrow> model \<Rightarrow> pyval option" where
  \<comment> \<open>what \<open>get_field_value\<close> returns after \<open>set_field_value\<close>; None when the call raised\<close>
  "stored_after lib now field_path v m =
     (case set_field_value lib now field_path v m of
        Inl e \<Rightarrow> None
      | Inr (changed, m') \<Rightarrow> Some (get_field_value m' field_path))"

fun uses_crlf :: "string \<Rightarrow> bool" where
  \<comment> \<open>every line terminator of the text is \<open>CR LF\<close>\<close>
  "uses_crlf [] = True"
| "uses_crlf [c] = (c \<noteq> CHR 0x0D \<and> c \<noteq> CHR 0x0A)"
| "uses_crlf (c # d # cs) =
     (if c = CHR 0x0D then d = CHR 0x0A \<and> uses_crlf cs
      else c \<noteq> CHR 0x0A \<and> uses_crlf (d # cs))"

section \<open>The rules as the specification words them\<close>

definition wrapped_value :: "string \<Rightarrow> pyval" where
  \<comment> \<open>the last two rules of the coercion: a tuple for a parenthesized text, else the text\<close>
  "wrapped_value s =
     (if startswith s ''('' \<and> endswith s '')''
      then VTuple (map (\<lambda>part. case py_float part of Some f \<Rightarrow> VFloat f | None \<Rightarrow> VStr part)
                     (map strip (split_char (CHR '','') (butlast (tl s)))))
      else VStr s)"

definition spec_ini_value :: "string \<Rightarrow> pyval" where
  \<comment> \<open>the coercion as the specification words it, each rule tried when the ones before it
      do not apply: boolean words, then an integer (only without a point), then a float,
      then a parenthesized tuple, then the plain text\<close>
  "spec_ini_value value_str =
     (let s = strip value_str
      in if lower s \<in> set [''true'', ''on'', ''yes'', ''1''] then VBool True
         else if lower s \<in> set [''false'', ''off'', ''no'', ''0''] then VBool False
         else if \<not> contains s ''.'' \<and> py_int s \<noteq> None then VInt (the (py_int s))
         else if py_float s \<noteq> None then VFloat (the (py_float s))
         else wrapped_value s)"

definition spec_numeric :: "pyval \<Rightarrow> bool" where
  \<comment> \<open>numeric in the specification's sense: an integer or a float, a boolean being a
      type of its own\<close>
  "spec_numeric v = (case v of VInt i \<Rightarrow> True | VFloat f \<Rightarrow> True | _ \<Rightarrow> False)"

definition spec_scalars_equal :: "pyval \<Rightarrow> pyval \<Rightarrow> bool" where
  \<comment> \<open>the equality rule as the specification words it, for values that are not both
      sequences\<close>
  "spec_scalars_equal a b =
     (if a = VNone \<and> b = VNone then True
      else if a = VNone \<or> b = VNone then False
      else if spec_numeric a \<and> spec_numeric b
        then float_less (float_abs (float_sub (number_of a) (number_of b))) tolerance
      else (case (a, b) of
              (VStr s, VStr t) \<Rightarrow> strip s = strip t
            | (VBool x, VBool y) \<Rightarrow> x = y
            | _ \<Rightarrow> py_eq a b))"

definition bool_with_float :: "pyval \<Rightarrow> pyval \<Rightarrow> bool" where
  \<comment> \<open>one value is a boolean and the other a float\<close>
  "bool_with_float a b =
     (case (a, b) of
        (VBool x, VFloat f) \<Rightarrow> True
      | (VFloat f, VBool x) \<Rightarrow> True
      | _ \<Rightarrow> False)"

section \<open>Example documents\<close>

text \<open>
  The closed examples below hold integers, strings and one tuple that is never formatted,
  so the library functions of \<open>example_lib\<close> are never called on them.
  \<open>example_parse_json\<close> is the JSON parser on the example document: the lines hold no
  comment, and \<open>example_json_data\<close> is what \<open>json.loads\<close> returns for them.
\<close>

definition example_lib :: pylib where
  "example_lib =
     \<lparr>float_str = (\<lambda>f. ''<float>''), float_fmt3 = (\<lambda>f. ''<float>''),
      container_str = (\<lambda>v. ''<container>''), json_dumps = (\<lambda>v. ''<json>'')\<rparr>"

definition example_json_lines :: "string list" where
  "example_json_lines =
     [''{\<newline>'',
      ''\"A\": {\<newline>'',
      ''\"Quality\": 5\<newline>'',
      ''},\<newline>'',
      ''\"B\": {\<newline>'',
      ''\"Quality\": 7,\<newline>'',
      ''\"C\": {\"d\": 1 }\<newline>'',
      ''}\<newline>'',
      ''}\<newline>'']"

definition example_json_data :: pyval where
  "example_json_data =
     VDict [(''A'', VDict [(''Quality'', VInt 5)]),
            (''B'', VDict [(''Quality'', VInt 7), (''C'', VDict [(''d'', VInt 1)])])]"

definition example_ini_lines :: "string list" where
  "example_ini_lines =
     [''[A]\<newline>'', ''Quality=5 // hi\<newline>'', ''[B]\<newline>'', ''Quality=7\<newline>'',
      ''Color=(0.609, 0.343)\<newline>'']"

definition example_parse_json :: json_parser where
  "example_parse_json w filepath =
     (case files w filepath of
        None \<Rightarrow> (Inl FileNotFoundError, w)
      | Some content \<Rightarrow> (json_config_data (readlines content) [] example_json_data, w))"

definition example_world :: world where
  "example_world =
     \<lparr>files = [''settings.json'' \<mapsto> concat example_json_lines,
               ''Config_DX11.ini'' \<mapsto> concat example_ini_lines],
      linesep = ''\<newline>'', unwritable = {}, write_log = []\<rparr>"

definition example_model :: model where
  \<comment> \<open>the model after loading the two example files\<close>
  "example_model =
     snd (snd (load_configuration example_parse_json ''settings.json'' ''Config_DX11.ini''
                 (example_world, new_model)))"

definition after_set :: "string \<Rightarrow> string \<Rightarrow> model \<Rightarrow> model" where
  \<comment> \<open>the model after \<open>set_field_value(field_path, text)\<close>, unchanged when it raises\<close>
  "after_set field_path text m =
     (case set_field_value example_lib 0 field_path (VStr text) m of
        Inl e \<Rightarrow> m
      | Inr (changed, m') \<Rightarrow> m')"

definition example_json_config :: config_data where
  "example_json_config = projr (json_config_data example_json_lines [] example_json_data)"

definition example_ini_config :: config_data where
  "example_ini_config = projr (ini_parse_lines example_ini_lines)"

definition nested_json_items :: "(string \<times> pyval) list" where
  \<comment> \<open>a scalar at the top and a field two objects deep\<close>
  "nested_json_items = [(''Top'', VInt 0), (''A'', VDict [(''B'', VDict [(''c'', VInt 1)])])]"

definition written_json :: "model \<Rightarrow> string list" where
  \<comment> \<open>the lines the JSON writer emits for the model's JSON document\<close>
  "written_json m = (case json_config m of None \<Rightarrow> [] | Some c \<Rightarrow> json_new_lines example_lib c)"


definition writer_dirty :: "model \<Rightarrow> string \<Rightarrow> bool" where
  \<comment> \<open>the JSON writer's dirty check on the FieldInfo of a path\<close>
  "writer_dirty m p =
     (case json_config m of
        None \<Rightarrow> False
      | Some c \<Rightarrow>
          (case map_of (cfg_fields c) p of
             None \<Rightarrow> False
           | Some info \<Rightarrow> py_ne (field_value info) (original_value info)))"

definition example_edited_model :: model where
  \<comment> \<open>the example model after one edit\<close>
  "example_edited_model = after_set ''A.Quality'' ''6'' example_model"

definition example_applied_model :: model where
  \<comment> \<open>and after \<open>apply_changes\<close> in a world where both writes succeed\<close>
  "example_applied_model = snd (snd (apply_changes example_lib (example_world, example_edited_model)))"


definition crlf_ini_content :: string where
  \<comment> \<open>an INI file of two lines that end in \<open>CR LF\<close>\<close>
  "crlf_ini_content = ''[A]'' @ [CHR 0x0D, CHR 0x0A] @ ''Quality=5'' @ [CHR 0x0D, CHR 0x0A]"

definition crlf_json_content :: string where
  \<comment> \<open>a JSON file of three lines that end in \<open>CR LF\<close>\<close>
  "crlf_json_content =
     ''{'' @ [CHR 0x0D, CHR 0x0A] @ ''\"A\": 1'' @ [CHR 0x0D, CHR 0x0A]
     @ ''}'' @ [CHR 0x0D, CHR 0x0A]"

definition crlf_world :: world where
  \<comment> \<open>the two files on a platform whose line separator is \<open>LF\<close>\<close>
  "crlf_world =
     \<lparr>files = [''settings.json'' \<mapsto> crlf_json_content, ''Config_DX11.ini'' \<mapsto> crlf_ini_content],
      linesep = ''\<newline>'', unwritable = {}, write_log = []\<rparr>"

definition crlf_ini_config :: config_data where
  "crlf_ini_config = projr (ini_parse_file crlf_world ''Config_DX11.ini'')"

definition crlf_json_config :: config_data where
  \<comment> \<open>the parsed JSON file, \<open>json.loads\<close> giving the object with the one member \<open>A\<close>\<close>
  "crlf_json_config =
     projr (json_config_data (readlines crlf_json_content) [] (VDict [(''A'', VInt 1)]))"

section \<open>Round trip without changes\<close>

subsection \<open>Equality of a value with itself\<close>

lemma py_eq_list_refl: "py_eq_list xs xs"
  by (induction xs) auto

lemma py_eq_items_refl: "py_eq_items xs xs"
  by (induction xs) auto

lemma py_eq_refl: "v \<noteq> VFloat NaN \<Longrightarrow> py_eq v v"
  by (cases v) (auto simp: py_eq_flat_def float_eq_def py_eq_list_refl py_eq_items_refl)

lemma py_eq_nan: "\<not> py_eq (VFloat NaN) (VFloat NaN)"
  by (simp add: py_eq_flat_def float_eq_def)

subsection \<open>Lines without a dirty field are kept\<close>

lemma find_field_in_set:
  "find_field ok flds = Some info \<Longrightarrow> \<exists>p. (p, info) \<in> set flds \<and> ok p"
  unfolding find_field_def by (induction flds) (auto split: if_splits)

lemma json_patch_line_clean: "clean flds \<Longrightarrow> json_patch_line lib flds line = line"
  by (auto simp: json_patch_line_def clean_def split: option.splits dest!: find_field_in_set)

lemma ini_patch_line_clean: "clean flds \<Longrightarrow> ini_patch_line lib flds line = line"
  by (auto simp: ini_patch_line_def clean_def Let_def split: option.splits dest!: find_field_in_set)

lemma json_new_lines_clean: "clean (cfg_fields config) \<Longrightarrow> json_new_lines lib config = raw_lines config"
  by (simp add: json_new_lines_def json_patch_line_clean map_idI)

lemma ini_new_lines_clean: "clean (cfg_fields config) \<Longrightarrow> ini_new_lines lib config = raw_lines config"
  by (simp add: ini_new_lines_def ini_patch_line_clean map_idI)

subsection \<open>What the INI parser yields is clean\<close>

lemma in_set_update: "x \<in> set (AList.update k v al) \<Longrightarrow> x = (k, v) \<or> x \<in> set al"
  by (induction al) (auto split: if_splits)

lemma in_set_map_entry:
  "x \<in> set (AList.map_entry k f al) \<Longrightarrow> x \<in> set al \<or> (\<exists>v. (k, v) \<in> set al \<and> x = (k, f v))"
  by (induction al) (auto split: if_splits)

lemma contains_char: "contains s [c] = (c \<in> set s)"
  by (induction s) (auto simp: startswith_def)

lemma in_dropWhile: "c \<in> set s \<Longrightarrow> \<not> P c \<Longrightarrow> c \<in> set (dropWhile P s)"
  by (induction s) auto

lemma dot_in_num_strip: "CHR ''.'' \<in> set s \<Longrightarrow> CHR ''.'' \<in> set (num_strip s)"
  by (simp add: num_strip_def in_dropWhile is_num_space_def)

lemma dot_in_drop_underscores:
  "drop_underscores prev s = Some t \<Longrightarrow> CHR ''.'' \<in> set s \<Longrightarrow> CHR ''.'' \<in> set t"
  by (induction prev s arbitrary: t rule: drop_underscores.induct) (auto split: if_splits)

lemma dot_in_split_sign: "CHR ''.'' \<in> set s \<Longrightarrow> CHR ''.'' \<in> set (snd (split_sign s))"
  by (auto simp: split_sign_def split: list.splits)

lemma lower_char_dot: "lower_char (CHR ''.'') = CHR ''.''"
  by (simp add: lower_char_def)

lemma dot_in_lower: "CHR ''.'' \<in> set s \<Longrightarrow> CHR ''.'' \<in> set (lower s)"
  unfolding lower_def using lower_char_dot by (metis image_eqI set_map)

lemma py_float_dot_finite:
  assumes "CHR ''.'' \<in> set s" and "py_float s = Some f"
  shows "\<exists>q. f = Finite q"
proof -
  from assms(2) obtain t where t: "drop_underscores (CHR 0x00) (num_strip s) = Some t"
    by (auto simp: py_float_def split: option.splits)
  obtain neg body where sb: "split_sign t = (neg, body)" by (cases "split_sign t")
  have "CHR ''.'' \<in> set t"
    using t assms(1) dot_in_num_strip dot_in_drop_underscores by blast
  then have "CHR ''.'' \<in> set body" using dot_in_split_sign [of t] sb by simp
  then have d: "CHR ''.'' \<in> set (lower body)" by (rule dot_in_lower)
  have "lower body \<noteq> ''inf''" "lower body \<noteq> ''infinity''" "lower body \<noteq> ''nan''"
    using d by auto
  then show ?thesis
    using assms(2) t sb by (auto simp: py_float_def split: option.splits)
qed

lemma parse_ini_value_not_nan: "parse_ini_value s \<noteq> VFloat NaN"
  by (auto simp: parse_ini_value_def Let_def contains_char split: option.splits
      dest: py_float_dot_finite)

lemma entries_ok_append: "entries_ok data \<Longrightarrow> entries_ok (data @ [(name, [])])"
  by (auto simp: entries_ok_def)

lemma entries_ok_store:
  "entries_ok data \<Longrightarrow> entry_value e \<noteq> VFloat NaN \<Longrightarrow>
   entries_ok (AList.map_entry sec (AList.update k e) data)"
proof -
  assume ok: "entries_ok data" and e: "entry_value e \<noteq> VFloat NaN"
  have "entry_value (snd x) \<noteq> VFloat NaN"
    if s: "s \<in> set (AList.map_entry sec (AList.update k e) data)" and x: "x \<in> set (snd s)" for s x
  proof -
    from in_set_map_entry [OF s] consider "s \<in> set data"
      | es where "(sec, es) \<in> set data" "s = (sec, AList.update k e es)" by blast
    then show ?thesis
    proof cases
      case 1
      then show ?thesis using ok x by (auto simp: entries_ok_def)
    next
      case 2
      then have "x = (k, e) \<or> x \<in> set es" using x in_set_update by fastforce
      then show ?thesis using ok e 2(1) by (force simp: entries_ok_def)
    qed
  qed
  then show ?thesis by (auto simp: entries_ok_def)
qed

lemma parse_lines_ok:
  "parse_lines n lines data cur = Inr data' \<Longrightarrow> entries_ok data \<Longrightarrow> entries_ok data'"
proof (induction n lines data cur rule: parse_lines.induct)
  case (1 line_num data current_section)
  then show ?case by simp
next
  case (2 line_num raw_line rest data current_section)
  show ?case
    using "2.prems" "2.IH"
    by (auto simp: Let_def entries_ok_append entries_ok_store parse_ini_value_not_nan
        split: if_splits option.splits)
qed

lemma values_ok_clean: "values_ok flds \<Longrightarrow> clean flds"
  by (auto simp: values_ok_def clean_def py_ne_def py_eq_refl)

lemma values_ok_update:
  "values_ok flds \<Longrightarrow> field_value info = original_value info \<Longrightarrow> field_value info \<noteq> VFloat NaN \<Longrightarrow>
   values_ok (AList.update p info flds)"
  unfolding values_ok_def by (auto dest: in_set_update)

lemma build_section_ok:
  "values_ok flds \<Longrightarrow> \<forall>e \<in> set es. entry_value (snd e) \<noteq> VFloat NaN \<Longrightarrow>
   values_ok (build_section sec es flds)"
  by (induction sec es flds rule: build_section.induct)
     (auto simp: values_ok_update ini_field_def FieldInfo_def)

lemma build_field_info_ok:
  "values_ok flds \<Longrightarrow> entries_ok data \<Longrightarrow> values_ok (build_field_info data flds)"
  by (induction data flds rule: build_field_info.induct)
     (auto simp: build_section_ok entries_ok_def)

lemma ini_parse_lines_clean:
  assumes "ini_parse_lines lines = Inr config"
  shows "clean (cfg_fields config) \<and> raw_lines config = lines"
proof -
  from assms obtain data where d: "parse_with_comments lines = Inr data"
    and c: "config = \<lparr>cfg_fields = build_field_info data [],
               categories = build_categories (build_field_info data []) [],
               descriptions = [], raw_lines = lines\<rparr>"
    by (auto simp: ini_parse_lines_def split: sum.splits)
  have "entries_ok data"
    using d parse_lines_ok [of 0 lines "[]" None data]
    by (simp add: parse_with_comments_def entries_ok_def)
  moreover have "values_ok []" by (simp add: values_ok_def)
  ultimately have "values_ok (build_field_info data [])"
    by (simp add: build_field_info_ok)
  then show ?thesis using c by (simp add: values_ok_clean)
qed

subsection \<open>What JSON flattening yields is clean\<close>

lemma adopt_nested_ok:
  "values_ok flds \<Longrightarrow> values_ok nested \<Longrightarrow> values_ok (adopt_nested cat nested flds)"
proof (induction cat nested flds rule: adopt_nested.induct)
  case (1 cat flds)
  then show ?case by simp
next
  case (2 cat nested_path nested_field rest flds)
  from "2.prems"(2) have a: "values_ok rest"
    and b: "field_value nested_field = original_value nested_field"
    and c: "field_value nested_field \<noteq> VFloat NaN"
    by (auto simp: values_ok_def)
  have "values_ok (AList.update nested_path (nested_field\<lparr>category := cat\<rparr>) flds)"
    using "2.prems"(1) b c by (simp add: values_ok_update)
  then show ?case using "2.IH" a by simp
qed


lemma nan_free_not_nan: "nan_free v \<Longrightarrow> v \<noteq> VFloat NaN"
  by auto

lemma build_fields_ok:
  "values_ok flds \<Longrightarrow> nan_free_items items \<Longrightarrow> values_ok (build_fields items descs parent flds)"
proof (induction items descs parent flds rule: build_fields.induct)
  case (1 descs parent_path flds)
  then show ?case by simp
next
  case (2 key sub rest descs parent_path flds)
  have "values_ok []" by (simp add: values_ok_def)
  then have "values_ok (build_fields sub descs (join_path parent_path key) [])"
    using "2.IH"(1) "2.prems"(2) by simp
  then have "values_ok (adopt_nested key (build_fields sub descs (join_path parent_path key) []) flds)"
    using "2.prems"(1) by (simp add: adopt_nested_ok)
  then show ?case using "2.IH"(2) "2.prems"(2) by simp
qed (simp_all add: values_ok_update leaf_field_def FieldInfo_def)

lemma json_config_data_clean:
  assumes "json_config_data lines descs json_data = Inr config" and "nan_free json_data"
  shows "clean (cfg_fields config) \<and> raw_lines config = lines"
proof -
  from assms(1) obtain items where i: "json_data = VDict items"
    and c: "config = \<lparr>cfg_fields = build_field_hierarchy items descs [],
               categories = build_categories (build_field_hierarchy items descs []) [],
               descriptions = descs, raw_lines = lines\<rparr>"
    by (auto simp: json_config_data_def split: pyval.splits)
  have "values_ok []" by (simp add: values_ok_def)
  then have "values_ok (build_field_hierarchy items descs [])"
    using assms(2) i by (simp add: build_field_hierarchy_def build_fields_ok)
  then show ?thesis using c by (simp add: values_ok_clean)
qed

subsection \<open>Reading and writing text\<close>

lemma concat_split_lines: "concat (split_lines t) = t"
  by (induction t) (auto split: list.splits)

lemma translate_newlines_concat:
  "concat (map (translate_newlines sep) ls) = translate_newlines sep (concat ls)"
  by (induction ls) (simp_all add: translate_newlines_def)

lemma written_readlines:
  "concat (map (translate_newlines sep) (readlines content))
     = translate_newlines sep (universal_newlines content)"
  by (simp add: translate_newlines_concat readlines_def concat_split_lines)

lemma universal_newlines_id: "CHR 0x0D \<notin> set t \<Longrightarrow> universal_newlines t = t"
  by (induction t rule: universal_newlines.induct) auto

lemma translate_newlines_lf: "translate_newlines [CHR 0x0A] t = t"
  by (induction t) (simp_all add: translate_newlines_def)

lemma translate_newlines_Cons:
  "translate_newlines sep (c # t) = (if c = CHR 0x0A then sep else [c]) @ translate_newlines sep t"
  by (simp add: translate_newlines_def)

lemma crlf_round_trip:
  "uses_crlf t \<Longrightarrow> translate_newlines [CHR 0x0D, CHR 0x0A] (universal_newlines t) = t"
  by (induction t rule: universal_newlines.induct)
     (auto simp: translate_newlines_Cons translate_newlines_def)

subsection \<open>The round trip\<close>

text \<open>
  Claim C1 as stated fails on the bytes of the file. A file whose lines end in \<open>CR LF\<close>,
  parsed and written back with no change on a platform whose line separator is \<open>LF\<close>,
  comes out with every line ending in \<open>LF\<close>, for the INI writer and for the JSON writer:
  the text-mode read has translated the terminators and the lines kept for the write-back
  no longer hold them.
\<close>

theorem crlf_file_is_rewritten:
  "ini_parse_file crlf_world ''Config_DX11.ini'' = Inr crlf_ini_config
   \<and> clean (cfg_fields crlf_ini_config)
   \<and> files crlf_world ''Config_DX11.ini''
       = Some (''[A]'' @ [CHR 0x0D, CHR 0x0A] @ ''Quality=5'' @ [CHR 0x0D, CHR 0x0A])
   \<and> files (snd (ini_write_preserving_structure example_lib crlf_ini_config ''Config_DX11.ini''
                   crlf_world)) ''Config_DX11.ini''
       = Some ''[A]\<newline>Quality=5\<newline>''
   \<and> json_config_data (readlines crlf_json_content) [] (VDict [(''A'', VInt 1)])
       = Inr crlf_json_config
   \<and> clean (cfg_fields crlf_json_config)
   \<and> files crlf_world ''settings.json''
       = Some (''{'' @ [CHR 0x0D, CHR 0x0A] @ ''\"A\": 1'' @ [CHR 0x0D, CHR 0x0A]
               @ ''}'' @ [CHR 0x0D, CHR 0x0A])
   \<and> files (snd (json_write_preserving_structure example_lib crlf_json_config ''settings.json''
                   crlf_world)) ''settings.json''
       = Some ''{\<newline>\"A\": 1\<newline>}\<newline>''"
  by code_simp

text \<open>
  Claim C1, amended. When no field passes the writers' dirty check (every
  \<open>FieldInfo.value\<close> still equals its \<open>original_value\<close>), both writers emit exactly the
  lines that were read. Parsing a file and writing the parsed document back therefore
  leaves every other file alone and gives the file the content it had with each line
  terminator (\<open>CR LF\<close>, \<open>CR\<close> or \<open>LF\<close>) replaced by the line separator of the platform:
  for the INI writer after \<open>IniParser.parse_file\<close>, and for the JSON writer after the
  flattening of any decoded document without NaN. The file is reproduced byte for byte
  when its terminators are the platform's: on a platform that writes \<open>LF\<close> when the file
  holds no \<open>CR\<close>, on a platform that writes \<open>CR LF\<close> when every terminator of the file
  is \<open>CR LF\<close>.
\<close>

theorem round_trip_without_changes:
  "(clean (cfg_fields config) \<longrightarrow>
      json_new_lines lib config = raw_lines config \<and> ini_new_lines lib config = raw_lines config)
   \<and> (json_config_data (readlines content) descs json_data = Inr config \<and> nan_free json_data
        \<and> files w filepath = Some content \<and> filepath \<notin> unwritable w \<longrightarrow>
      fst (json_write_preserving_structure lib config filepath w)
      \<and> files (snd (json_write_preserving_structure lib config filepath w))
          = (files w)(filepath \<mapsto> translate_newlines (linesep w) (universal_newlines content)))
   \<and> (ini_parse_file w filepath = Inr config \<and> files w filepath = Some content
        \<and> filepath \<notin> unwritable w \<longrightarrow>
      fst (ini_write_preserving_structure lib config filepath w)
      \<and> files (snd (ini_write_preserving_structure lib config filepath w))
          = (files w)(filepath \<mapsto> translate_newlines (linesep w) (universal_newlines content)))
   \<and> (files w filepath = Some content \<and> linesep w = [CHR 0x0A] \<and> CHR 0x0D \<notin> set content \<longrightarrow>
      (files w)(filepath \<mapsto> translate_newlines (linesep w) (universal_newlines content))
        = files w)
   \<and> (files w filepath = Some content \<and> linesep w = [CHR 0x0D, CHR 0x0A] \<and> uses_crlf content \<longrightarrow>
      (files w)(filepath \<mapsto> translate_newlines (linesep w) (universal_newlines content))
        = files w)"
proof (intro conjI impI)
  assume "clean (cfg_fields config)"
  then show "json_new_lines lib config = raw_lines config"
    and "ini_new_lines lib config = raw_lines config"
    by (simp_all add: json_new_lines_clean ini_new_lines_clean)
next
  assume a: "json_config_data (readlines content) descs json_data = Inr config \<and> nan_free json_data
        \<and> files w filepath = Some content \<and> filepath \<notin> unwritable w"
  then have "json_new_lines lib config = readlines content"
    using json_config_data_clean [of "readlines content" descs json_data config]
      json_new_lines_clean by auto
  then show "fst (json_write_preserving_structure lib config filepath w)"
    and "files (snd (json_write_preserving_structure lib config filepath w))
          = (files w)(filepath \<mapsto> translate_newlines (linesep w) (universal_newlines content))"
    using a by (simp_all add: json_write_preserving_structure_def write_file_def written_readlines)
next
  assume a: "ini_parse_file w filepath = Inr config \<and> files w filepath = Some content
        \<and> filepath \<notin> unwritable w"
  then have "ini_parse_lines (readlines content) = Inr config"
    by (auto simp: ini_parse_file_def)
  then have "ini_new_lines lib config = readlines content"
    using ini_parse_lines_clean [of "readlines content" config] ini_new_lines_clean by auto
  then show "fst (ini_write_preserving_structure lib config filepath w)"
    and "files (snd (ini_write_preserving_structure lib config filepath w))
          = (files w)(filepath \<mapsto> translate_newlines (linesep w) (universal_newlines content))"
    using a by (simp_all add: ini_write_preserving_structure_def write_file_def written_readlines)
next
  assume "files w filepath = Some content \<and> linesep w = [CHR 0x0A] \<and> CHR 0x0D \<notin> set content"
  then show "(files w)(filepath \<mapsto> translate_newlines (linesep w) (universal_newlines content))
        = files w"
    by (auto simp: universal_newlines_id translate_newlines_lf)
next
  assume "files w filepath = Some content \<and> linesep w = [CHR 0x0D, CHR 0x0A] \<and> uses_crlf content"
  then show "(files w)(filepath \<mapsto> translate_newlines (linesep w) (universal_newlines content))
        = files w"
    by (auto simp: crlf_round_trip)
qed

text \<open>
  The two example files, whose lines end in \<open>LF\<close>, are parsed and written back where the
  line separator is \<open>LF\<close>; the file with \<open>CR LF\<close> is written back where the line separator
  is \<open>CR LF\<close>.
\<close>

theorem round_trip_without_changes_witness:
  "ini_parse_file example_world ''Config_DX11.ini'' = Inr example_ini_config
   \<and> files example_world ''Config_DX11.ini'' = Some (concat example_ini_lines)
   \<and> ''Config_DX11.ini'' \<notin> unwritable example_world
   \<and> linesep example_world = [CHR 0x0A]
   \<and> CHR 0x0D \<notin> set (concat example_ini_lines)
   \<and> fst (ini_write_preserving_structure example_lib example_ini_config ''Config_DX11.ini''
            example_world)
   \<and> files (snd (ini_write_preserving_structure example_lib example_ini_config
                   ''Config_DX11.ini'' example_world)) = files example_world
   \<and> json_config_data (readlines (concat example_json_lines)) [] example_json_data
       = Inr example_json_config
   \<and> nan_free example_json_data
   \<and> files example_world ''settings.json'' = Some (concat example_json_lines)
   \<and> CHR 0x0D \<notin> set (concat example_json_lines)
   \<and> files (snd (json_write_preserving_structure example_lib example_json_config
                   ''settings.json'' example_world)) = files example_world
   \<and> clean (cfg_fields example_json_config)
   \<and> json_new_lines example_lib example_json_config = example_json_lines
   \<and> uses_crlf crlf_ini_content
   \<and> files (snd (ini_write_preserving_structure example_lib crlf_ini_config ''Config_DX11.ini''
                   (crlf_world\<lparr>linesep := [CHR 0x0D, CHR 0x0A]\<rparr>)))
       = files crlf_world"
proof -
  have i: "ini_parse_file example_world ''Config_DX11.ini'' = Inr example_ini_config"
    by code_simp
  have r: "readlines (concat example_json_lines) = example_json_lines" by code_simp
  have j: "json_config_data example_json_lines [] example_json_data = Inr example_json_config"
    by code_simp
  have n: "nan_free example_json_data" by (simp add: example_json_data_def)
  have f: "files example_world ''settings.json'' = Some (concat example_json_lines)"
    "files example_world ''Config_DX11.ini'' = Some (concat example_ini_lines)"
    "linesep example_world = [CHR 0x0A]"
    by (simp_all add: example_world_def)
  have u: "''Config_DX11.ini'' \<notin> unwritable example_world"
    "''settings.json'' \<notin> unwritable example_world"
    by (simp_all add: example_world_def)
  have cr: "CHR 0x0D \<notin> set (concat example_ini_lines)"
    "CHR 0x0D \<notin> set (concat example_json_lines)"
    by (simp_all add: example_ini_lines_def example_json_lines_def)
  have c: "clean (cfg_fields example_json_config) \<and> raw_lines example_json_config = example_json_lines"
    using j n by (rule json_config_data_clean)
  let ?w = "crlf_world\<lparr>linesep := [CHR 0x0D, CHR 0x0A]\<rparr>"
  have k: "ini_parse_file ?w ''Config_DX11.ini'' = Inr crlf_ini_config" by code_simp
  have g: "files ?w ''Config_DX11.ini'' = Some crlf_ini_content"
    "linesep ?w = [CHR 0x0D, CHR 0x0A]" "''Config_DX11.ini'' \<notin> unwritable ?w"
    "files ?w = files crlf_world"
    by (simp_all add: crlf_world_def)
  have uc: "uses_crlf crlf_ini_content" by (simp add: crlf_ini_content_def)
  show ?thesis
    using round_trip_without_changes [of example_ini_config example_lib "concat example_ini_lines"
        "[]" example_json_data example_world "''Config_DX11.ini''"]
      round_trip_without_changes [of example_json_config example_lib "concat example_json_lines"
        "[]" example_json_data example_world "''settings.json''"]
      round_trip_without_changes [of crlf_ini_config example_lib crlf_ini_content
        "[]" example_json_data ?w "''Config_DX11.ini''"]
      i j r n f u cr c k g uc
    by simp
qed

section \<open>FieldState.set_value with an equal value\<close>

text \<open>
  Claim C10. Calling \<open>FieldState.set_value\<close> with a value equal (Python \<open>==\<close>) to the
  current value returns False and leaves the whole FieldState as it was: the validation
  errors, warnings and state and the modification time are preserved. Conversely, whenever
  the call changes anything of the FieldState, it returns True and the value differed.
\<close>

theorem set_value_equal_is_noop:
  "(py_eq new_value (current_value fs) \<longrightarrow> set_value now new_value fs = (False, fs))
   \<and> (snd (set_value now new_value fs) \<noteq> fs \<longrightarrow>
        fst (set_value now new_value fs) \<and> \<not> py_eq new_value (current_value fs))"
  by (simp add: set_value_def Let_def)

text \<open>
  A state with a recorded validation error and the value 5: setting 5.0 changes nothing,
  setting 6 does.
\<close>

theorem set_value_equal_is_noop_witness:
  "py_eq (VFloat (Finite 5)) (current_value (add_validation_error ''too big'' (FieldState (VInt 5))))
   \<and> set_value 9 (VFloat (Finite 5)) (add_validation_error ''too big'' (FieldState (VInt 5)))
       = (False, add_validation_error ''too big'' (FieldState (VInt 5)))
   \<and> validation_errors (snd (set_value 9 (VFloat (Finite 5))
        (add_validation_error ''too big'' (FieldState (VInt 5))))) = [''too big'']
   \<and> snd (set_value 9 (VInt 6) (add_validation_error ''too big'' (FieldState (VInt 5))))
       \<noteq> add_validation_error ''too big'' (FieldState (VInt 5))
   \<and> fst (set_value 9 (VInt 6) (add_validation_error ''too big'' (FieldState (VInt 5))))"
  using set_value_equal_is_noop [of "VFloat (Finite 5)"
      "add_validation_error ''too big'' (FieldState (VInt 5))" 9]
    set_value_equal_is_noop [of "VInt 6"
      "add_validation_error ''too big'' (FieldState (VInt 5))" 9]
  by (simp add: add_validation_error_def FieldState_def py_eq_flat_def float_eq_def
      set_value_def py_ne_def)

section \<open>apply_changes: the order of the writes and failure\<close>

text \<open>
  Claim C3. For a model that holds both documents and both paths, \<open>apply_changes\<close>
  attempts the JSON write first. When it fails, the call returns the failure, the INI write
  is not attempted (the write log gains the JSON path only) and the model is unchanged.
  When the JSON write succeeds and the INI write fails, both were attempted in that order
  and the model is unchanged. Only when both succeed are the FieldStates of the modified
  paths promoted and the modified set emptied. On every failure the model is exactly the
  one before the call.
\<close>

theorem apply_changes_write_order:
  assumes "json_config m = Some jc" and "json_file_path m = Some jp"
    and "ini_config m = Some ic" and "ini_file_path m = Some ip"
  shows
    "(jp \<in> unwritable w \<longrightarrow>
        apply_changes lib (w, m)
          = ((False, Some ''Failed to write JSON configuration''),
             w\<lparr>write_log := write_log w @ [jp]\<rparr>, m))
     \<and> (jp \<notin> unwritable w \<and> ip \<in> unwritable w \<longrightarrow>
        fst (apply_changes lib (w, m)) = (False, Some ''Failed to write INI configuration'')
        \<and> write_log (fst (snd (apply_changes lib (w, m)))) = write_log w @ [jp, ip]
        \<and> snd (snd (apply_changes lib (w, m))) = m)
     \<and> (jp \<notin> unwritable w \<and> ip \<notin> unwritable w \<longrightarrow>
        fst (apply_changes lib (w, m)) = (True, None)
        \<and> write_log (fst (snd (apply_changes lib (w, m)))) = write_log w @ [jp, ip]
        \<and> field_states (snd (snd (apply_changes lib (w, m))))
            = promote (modified_fields m) (field_states m)
        \<and> modified_fields (snd (snd (apply_changes lib (w, m)))) = {})
     \<and> (\<not> fst (fst (apply_changes lib (w, m))) \<longrightarrow> snd (snd (apply_changes lib (w, m))) = m)"
  using assms
  by (simp add: apply_changes_def json_write_preserving_structure_def
      ini_write_preserving_structure_def write_file_def notify_observers_def)


text \<open>
  The example model with one edited field, in a world where the JSON file, the INI file or
  neither refuses the write.
\<close>

theorem apply_changes_write_order_witness:
  "json_file_path (after_set ''A.Quality'' ''6'' example_model) = Some ''settings.json''
   \<and> ini_file_path (after_set ''A.Quality'' ''6'' example_model) = Some ''Config_DX11.ini''
   \<and> modified_fields (after_set ''A.Quality'' ''6'' example_model) = {''A.Quality''}
   \<and> apply_changes example_lib
        (example_world\<lparr>unwritable := {''settings.json''}\<rparr>,
         after_set ''A.Quality'' ''6'' example_model)
      = ((False, Some ''Failed to write JSON configuration''),
         example_world\<lparr>unwritable := {''settings.json''}, write_log := [''settings.json'']\<rparr>,
         after_set ''A.Quality'' ''6'' example_model)
   \<and> snd (snd (apply_changes example_lib
        (example_world\<lparr>unwritable := {''Config_DX11.ini''}\<rparr>,
         after_set ''A.Quality'' ''6'' example_model)))
      = after_set ''A.Quality'' ''6'' example_model
   \<and> write_log (fst (snd (apply_changes example_lib
        (example_world\<lparr>unwritable := {''Config_DX11.ini''}\<rparr>,
         after_set ''A.Quality'' ''6'' example_model))))
      = [''settings.json'', ''Config_DX11.ini'']
   \<and> fst (apply_changes example_lib
        (example_world, after_set ''A.Quality'' ''6'' example_model)) = (True, None)
   \<and> modified_fields (snd (snd (apply_changes example_lib
        (example_world, after_set ''A.Quality'' ''6'' example_model)))) = {}"
proof -
  let ?m = "after_set ''A.Quality'' ''6'' example_model"
  have jp: "json_file_path ?m = Some ''settings.json''" by code_simp
  have ip: "ini_file_path ?m = Some ''Config_DX11.ini''" by code_simp
  have md: "modified_fields ?m = {''A.Quality''}" by code_simp
  have "json_config ?m \<noteq> None" by code_simp
  then obtain jc where jc: "json_config ?m = Some jc" by auto
  have "ini_config ?m \<noteq> None" by code_simp
  then obtain ic where ic: "ini_config ?m = Some ic" by auto
  note t = apply_changes_write_order [OF jc jp ic ip]
  show ?thesis
    using t [of "example_world\<lparr>unwritable := {''settings.json''}\<rparr>" example_lib]
      t [of "example_world\<lparr>unwritable := {''Config_DX11.ini''}\<rparr>" example_lib]
      t [of example_world example_lib] jp ip md
    by (simp add: example_world_def)
qed

section \<open>Loading\<close>

text \<open>
  Claim C5 as stated fails: when the JSON file parses and the INI file is missing,
  \<open>load_configuration\<close> returns False but has already stored the new JSON document and
  path. On a fresh model the JSON document is set while no field state exists; on a model
  with an edit the fresh JSON document (value 5) stands beside the old field states
  (current value 6, modified).
\<close>

theorem load_failure_is_partial:
  "\<not> fst (load_configuration example_parse_json ''settings.json'' ''missing.ini''
            (example_world, new_model))
   \<and> json_config (snd (snd (load_configuration example_parse_json ''settings.json''
        ''missing.ini'' (example_world, new_model)))) = Some example_json_config
   \<and> json_config new_model = None
   \<and> field_states (snd (snd (load_configuration example_parse_json ''settings.json''
        ''missing.ini'' (example_world, new_model)))) = []
   \<and> \<not> fst (load_configuration example_parse_json ''settings.json'' ''missing.ini''
            (example_world, after_set ''A.Quality'' ''6'' example_model))
   \<and> json_config (snd (snd (load_configuration example_parse_json ''settings.json''
        ''missing.ini'' (example_world, after_set ''A.Quality'' ''6'' example_model))))
       = Some example_json_config
   \<and> map_option field_value (map_of (cfg_fields example_json_config) ''A.Quality'') = Some (VInt 5)
   \<and> get_field_value (snd (snd (load_configuration example_parse_json ''settings.json''
        ''missing.ini'' (example_world, after_set ''A.Quality'' ''6'' example_model))))
        ''A.Quality'' = VInt 6
   \<and> modified_fields (snd (snd (load_configuration example_parse_json ''settings.json''
        ''missing.ini'' (example_world, after_set ''A.Quality'' ''6'' example_model))))
       = {''A.Quality''}"
  by code_simp

text \<open>
  Claim C5, amended. When \<open>load_configuration\<close> returns False, either the JSON parse
  failed and the model is unchanged, or the JSON parse succeeded and the INI parse failed,
  and then the model differs from the one before the call in exactly the JSON document and
  the JSON path, which are the newly parsed ones; the INI document, the INI path, the field
  states and the modified set are the old ones.
\<close>

theorem load_failure_leaves:
  "\<not> fst (load_configuration parse_json json_path ini_path (w, m)) \<longrightarrow>
     ((\<exists>e. fst (parse_json w json_path) = Inl e)
        \<and> snd (snd (load_configuration parse_json json_path ini_path (w, m))) = m)
     \<or> (\<exists>jc e. fst (parse_json w json_path) = Inr jc
           \<and> ini_parse_file (snd (parse_json w json_path)) ini_path = Inl e
           \<and> snd (snd (load_configuration parse_json json_path ini_path (w, m)))
               = m\<lparr>json_config := Some jc, json_file_path := Some json_path\<rparr>)"
  by (auto simp: load_configuration_def split: prod.splits sum.splits)

theorem load_failure_leaves_witness:
  "\<not> fst (load_configuration example_parse_json ''settings.json'' ''missing.ini''
            (example_world, new_model))
   \<and> fst (example_parse_json example_world ''settings.json'') = Inr example_json_config
   \<and> snd (snd (load_configuration example_parse_json ''settings.json'' ''missing.ini''
                 (example_world, new_model)))
       = new_model\<lparr>json_config := Some example_json_config,
                    json_file_path := Some ''settings.json''\<rparr>"
proof -
  have f: "\<not> fst (load_configuration example_parse_json ''settings.json'' ''missing.ini''
            (example_world, new_model))"
    by code_simp
  have p: "fst (example_parse_json example_world ''settings.json'') = Inr example_json_config"
    by code_simp
  show ?thesis
    using load_failure_leaves [of example_parse_json "''settings.json''" "''missing.ini''"
        example_world new_model] f p
    by auto
qed

section \<open>The category of a flattened JSON field\<close>

lemma in_set_adopt_nested:
  "x \<in> set (adopt_nested cat nested flds) \<Longrightarrow>
   x \<in> set flds \<or> (\<exists>p f. (p, f) \<in> set nested \<and> x = (p, f\<lparr>category := cat\<rparr>))"
proof (induction cat nested flds rule: adopt_nested.induct)
  case (1 cat flds)
  then show ?case by simp
next
  case (2 cat nested_path nested_field rest flds)
  from "2.prems"
  have "x \<in> set (adopt_nested cat rest (AList.update nested_path (nested_field\<lparr>category := cat\<rparr>) flds))"
    by simp
  from "2.IH" [OF this] show ?case
    by (auto dest: in_set_update)
qed

lemma top_level_category_mono:
  "top_level_category rest descs entry \<Longrightarrow> top_level_category (kv # rest) descs entry"
  unfolding top_level_category_def by auto

lemma build_fields_top_level:
  "parent = [] \<Longrightarrow> entry \<in> set (build_fields items descs parent flds) \<Longrightarrow>
   entry \<in> set flds \<or> top_level_category items descs entry"
proof (induction items descs parent flds rule: build_fields.induct)
  case (1 descs parent_path flds)
  then show ?case by simp
next
  case (2 key sub rest descs parent_path flds)
  let ?nested = "build_fields sub descs (join_path parent_path key) []"
  from "2.IH"(2) "2.prems" consider
    "entry \<in> set (adopt_nested key ?nested flds)" | "top_level_category rest descs entry"
    by auto
  then show ?case
  proof cases
    case 1
    from in_set_adopt_nested [OF 1] show ?thesis
    proof
      assume "entry \<in> set flds" then show ?thesis by simp
    next
      assume "\<exists>p f. (p, f) \<in> set ?nested \<and> entry = (p, f\<lparr>category := key\<rparr>)"
      then obtain p f where pf: "(p, f) \<in> set ?nested" "entry = (p, f\<lparr>category := key\<rparr>)"
        by blast
      have "fst entry \<in> fst ` set (build_field_hierarchy sub descs key)"
        using pf "2.prems"(1) by (force simp: build_field_hierarchy_def join_path_def)
      then have "top_level_category ((key, VDict sub) # rest) descs entry"
        using pf(2) unfolding top_level_category_def by auto
      then show ?thesis by simp
    qed
  next
    case 2
    then show ?thesis by (simp add: top_level_category_mono)
  qed
qed (auto simp: top_level_category_def leaf_field_def FieldInfo_def join_path_def
       dest!: in_set_update)


text \<open>
  Claim C6 as stated fails: the category of a field nested two objects deep is the key of
  the outermost object, not of the nearest one. The field \<open>c\<close> inside \<open>B\<close> inside \<open>A\<close> is
  built with category \<open>A.B\<close>, then overwritten with \<open>B\<close> and, one level up, with \<open>A\<close>.
\<close>

theorem category_not_nearest_object:
  "map (\<lambda>entry. (fst entry, category (snd entry)))
       (build_field_hierarchy [(''A'', VDict [(''B'', VDict [(''c'', VInt 1)])])] [] [])
     = [(''A.B.c'', ''A'')]
   \<and> build_field_hierarchy [(''c'', VInt 1)] [] ''A.B'' = [(''A.B.c'', leaf_field [] ''A.B'' ''c'' (VInt 1))]
   \<and> ''A'' \<noteq> ''B''"
  by code_simp

text \<open>
  Claim C6, amended. Every field produced by flattening a document is either a scalar
  member of the document itself, with category General, or lies inside a member object of
  the document, at any depth, and has the key of that top-level object as its category.
\<close>

theorem category_is_top_level_key:
  "\<forall>entry \<in> set (build_field_hierarchy items descs []).
     (\<exists>v. (fst entry, v) \<in> set items \<and> (\<forall>sub. v \<noteq> VDict sub)
           \<and> category (snd entry) = ''General'')
     \<or> (\<exists>k sub. (k, VDict sub) \<in> set items \<and> category (snd entry) = k
           \<and> fst entry \<in> fst ` set (build_field_hierarchy sub descs k))"
  using build_fields_top_level [of "[]" _ items descs "[]"]
  by (auto simp: build_field_hierarchy_def top_level_category_def)


text \<open>The first and the last field of a document with a top-level scalar and a deep field.\<close>

theorem category_is_top_level_key_witness:
  "hd (build_field_hierarchy nested_json_items [] [])
     \<in> set (build_field_hierarchy nested_json_items [] [])
   \<and> fst (hd (build_field_hierarchy nested_json_items [] [])) = ''Top''
   \<and> category (snd (hd (build_field_hierarchy nested_json_items [] []))) = ''General''
   \<and> last (build_field_hierarchy nested_json_items [] [])
     \<in> set (build_field_hierarchy nested_json_items [] [])
   \<and> fst (last (build_field_hierarchy nested_json_items [] [])) = ''A.B.c''
   \<and> (\<exists>k sub. (k, VDict sub) \<in> set nested_json_items
         \<and> category (snd (last (build_field_hierarchy nested_json_items [] []))) = k
         \<and> fst (last (build_field_hierarchy nested_json_items [] []))
             \<in> fst ` set (build_field_hierarchy sub [] k))"
proof -
  have l: "build_field_hierarchy nested_json_items [] [] \<noteq> []" by code_simp
  have h: "fst (hd (build_field_hierarchy nested_json_items [] [])) = ''Top''"
    "category (snd (hd (build_field_hierarchy nested_json_items [] []))) = ''General''"
    "fst (last (build_field_hierarchy nested_json_items [] [])) = ''A.B.c''"
    by code_simp+
  have n: "\<forall>sub. (''A.B.c'', VDict sub) \<notin> set nested_json_items"
    "\<forall>v. (''A.B.c'', v) \<notin> set nested_json_items"
    by (simp_all add: nested_json_items_def)
  show ?thesis
    using category_is_top_level_key [of nested_json_items "[]", rule_format,
        of "last (build_field_hierarchy nested_json_items [] [])"] l h n
    by auto
qed

section \<open>Which lines a write-back changes\<close>







section \<open>apply_changes and the writers' dirty check\<close>

lemma promote_clean:
  "entry \<in> set (promote modified states) \<Longrightarrow> fst entry \<in> modified \<Longrightarrow>
   \<not> is_modified (snd entry) \<and> state_original_value (snd entry) = current_value (snd entry)"
  by (auto simp: promote_def state_apply_changes_def)

lemma apply_changes_model:
  "snd (snd (apply_changes lib (w, m))) = m
   \<or> (fst (fst (apply_changes lib (w, m)))
       \<and> snd (snd (apply_changes lib (w, m)))
           = notify_observers ChangesApplied
               (m\<lparr>field_states := promote (modified_fields m) (field_states m),
                  modified_fields := {}\<rparr>))"
  by (cases "json_config m"; cases "json_file_path m"; cases "ini_config m";
      cases "ini_file_path m")
    (simp_all add: apply_changes_def json_write_preserving_structure_def
      ini_write_preserving_structure_def write_file_def split: if_splits)

lemma apply_changes_failure_model:
  "\<not> fst (fst (apply_changes lib (w, m))) \<Longrightarrow> snd (snd (apply_changes lib (w, m))) = m"
  by (cases "json_config m"; cases "json_file_path m"; cases "ini_config m";
      cases "ini_file_path m")
    (simp_all add: apply_changes_def json_write_preserving_structure_def
      ini_write_preserving_structure_def write_file_def split: if_splits)

lemma apply_changes_success_model:
  "fst (fst (apply_changes lib (w, m))) \<Longrightarrow>
   snd (snd (apply_changes lib (w, m)))
     = notify_observers ChangesApplied
         (m\<lparr>field_states := promote (modified_fields m) (field_states m), modified_fields := {}\<rparr>)"
  by (cases "json_config m"; cases "json_file_path m"; cases "ini_config m";
      cases "ini_file_path m")
    (simp_all add: apply_changes_def json_write_preserving_structure_def
      ini_write_preserving_structure_def write_file_def split: if_splits)

text \<open>
  Claim C4 as stated fails. After a successful \<open>apply_changes\<close> the edited field still
  passes the writers' dirty check: its FieldInfo holds the value 6 and the parse-time
  \<open>original_value\<close> 5, so a repeated write-back patches line 2 again. And a field goes
  from dirty to clean without \<open>apply_changes\<close> or \<open>revert\<close>: setting the value back to 5
  does it.
\<close>

theorem apply_leaves_writer_dirty:
  "fst (fst (apply_changes example_lib (example_world, example_edited_model)))
   \<and> writer_dirty example_edited_model ''A.Quality''
   \<and> writer_dirty example_applied_model ''A.Quality''
   \<and> modified_fields example_applied_model = {}
   \<and> written_json example_applied_model ! 2 = ''\"Quality\": 6''
   \<and> example_json_lines ! 2 = ''\"Quality\": 5\<newline>''
   \<and> \<not> writer_dirty (after_set ''A.Quality'' ''5'' example_applied_model) ''A.Quality''"
  by code_simp

text \<open>
  Claim C4, amended. \<open>apply_changes\<close> never touches the two documents, so the outcome
  of the writers' dirty check is the same for every field before and after it. After a
  successful \<open>apply_changes\<close> the modified set is empty and every FieldState of a
  previously modified path is clean in the model's sense (not modified, original equal to
  current); an immediately repeated \<open>apply_changes\<close> succeeds too and leaves every file
  with the content the first one wrote.
\<close>

theorem apply_changes_keeps_documents:
  "json_config (snd (snd (apply_changes lib (w, m)))) = json_config m
   \<and> ini_config (snd (snd (apply_changes lib (w, m)))) = ini_config m
   \<and> (fst (fst (apply_changes lib (w, m))) \<longrightarrow>
        modified_fields (snd (snd (apply_changes lib (w, m)))) = {}
        \<and> (\<forall>entry \<in> set (field_states (snd (snd (apply_changes lib (w, m))))).
              fst entry \<in> modified_fields m \<longrightarrow>
              \<not> is_modified (snd entry)
              \<and> state_original_value (snd entry) = current_value (snd entry))
        \<and> fst (fst (apply_changes lib (snd (apply_changes lib (w, m)))))
        \<and> files (fst (snd (apply_changes lib (snd (apply_changes lib (w, m))))))
            = files (fst (snd (apply_changes lib (w, m)))))"
proof (intro conjI impI)
  show "json_config (snd (snd (apply_changes lib (w, m)))) = json_config m"
    using apply_changes_model [of lib w m] by (auto simp: notify_observers_def)
  show "ini_config (snd (snd (apply_changes lib (w, m)))) = ini_config m"
    using apply_changes_model [of lib w m] by (auto simp: notify_observers_def)
next
  assume ok: "fst (fst (apply_changes lib (w, m)))"
  note m' = apply_changes_success_model [OF ok]
  show "modified_fields (snd (snd (apply_changes lib (w, m)))) = {}"
    by (simp add: m' notify_observers_def)
  show "\<forall>entry \<in> set (field_states (snd (snd (apply_changes lib (w, m))))).
              fst entry \<in> modified_fields m \<longrightarrow>
              \<not> is_modified (snd entry)
              \<and> state_original_value (snd entry) = current_value (snd entry)"
    using promote_clean by (auto simp: m' notify_observers_def)
  show "fst (fst (apply_changes lib (snd (apply_changes lib (w, m)))))"
    using ok
    by (cases "json_config m"; cases "json_file_path m"; cases "ini_config m";
        cases "ini_file_path m")
      (simp_all add: apply_changes_def json_write_preserving_structure_def
        ini_write_preserving_structure_def write_file_def notify_observers_def
        split: if_splits)
  show "files (fst (snd (apply_changes lib (snd (apply_changes lib (w, m))))))
            = files (fst (snd (apply_changes lib (w, m))))"
    using ok
    by (cases "json_config m"; cases "json_file_path m"; cases "ini_config m";
        cases "ini_file_path m")
      (simp_all add: apply_changes_def json_write_preserving_structure_def
        ini_write_preserving_structure_def write_file_def notify_observers_def
        split: if_splits)
qed

text \<open>The example model with one edit, applied.\<close>

theorem apply_changes_keeps_documents_witness:
  "fst (fst (apply_changes example_lib (example_world, example_edited_model)))
   \<and> json_config example_applied_model = json_config example_edited_model
   \<and> modified_fields example_edited_model = {''A.Quality''}
   \<and> modified_fields example_applied_model = {}
   \<and> files (fst (snd (apply_changes example_lib
               (snd (apply_changes example_lib (example_world, example_edited_model))))))
       = files (fst (snd (apply_changes example_lib (example_world, example_edited_model))))"
proof -
  have s: "fst (fst (apply_changes example_lib (example_world, example_edited_model)))"
    by code_simp
  have m: "modified_fields example_edited_model = {''A.Quality''}" by code_simp
  show ?thesis
    using apply_changes_keeps_documents [of example_lib example_world example_edited_model] s m
    by (simp add: example_applied_model_def)
qed

section \<open>INI value coercion\<close>

lemma num_strip_paren: "\<exists>r'. num_strip (CHR ''('' # r) = CHR ''('' # r'"
proof -
  have np: "\<not> is_num_space (CHR ''('')" by (simp add: is_num_space_def)
  then have "num_strip (CHR ''('' # r) = CHR ''('' # rev (dropWhile is_num_space (rev r))"
    by (simp add: num_strip_def dropWhile_append3)
  then show ?thesis by blast
qed

lemma drop_underscores_paren:
  "drop_underscores (CHR 0x00) (CHR ''('' # r) = Some t \<Longrightarrow> \<exists>t'. t = CHR ''('' # t'"
  by auto

lemma parse_decimal_paren: "parse_decimal (CHR ''('' # r) = None"
  by (simp add: parse_decimal_def is_digit_def)

lemma lower_paren: "lower (CHR ''('' # r) = CHR ''('' # lower r"
  by (simp add: lower_def lower_char_def)

lemma py_float_paren: "py_float (CHR ''('' # r) = None"
proof -
  obtain r' where n: "num_strip (CHR ''('' # r) = CHR ''('' # r'" using num_strip_paren by blast
  show ?thesis
  proof (cases "drop_underscores (CHR 0x00) (CHR ''('' # r')")
    case None
    then show ?thesis by (simp add: py_float_def n)
  next
    case (Some t)
    then obtain t' where t: "t = CHR ''('' # t'" using drop_underscores_paren by blast
    have "split_sign t = (False, t)" by (simp add: split_sign_def t)
    then show ?thesis
      using Some by (simp add: py_float_def n t lower_paren parse_decimal_paren)
  qed
qed

lemma startswith_paren: "startswith s ''('' \<Longrightarrow> \<exists>r. s = CHR ''('' # r"
  by (cases s) (auto simp: startswith_def)

lemma float_is_not_wrapped: "py_float s \<noteq> None \<Longrightarrow> wrapped_value s = VStr s"
  using py_float_paren startswith_paren by (fastforce simp: wrapped_value_def)

text \<open>
  Claim C8 as stated fails. Read as a priority order, the claim has the float parse tried
  whenever the integer parse does not apply. The code chooses one numeric parse by the
  presence of a point: a text without a point that is no integer literal is never given to
  \<open>float\<close>. The text \<open>1e5\<close>, a float literal for Python, stays the string \<open>1e5\<close>; so
  does \<open>inf\<close>.
\<close>

theorem exponent_text_stays_string:
  "parse_ini_value ''1e5'' = VStr ''1e5''
   \<and> spec_ini_value ''1e5'' = VFloat (Finite 100000)
   \<and> py_int ''1e5'' = None
   \<and> py_float ''1e5'' = Some (Finite 100000)
   \<and> parse_ini_value ''inf'' = VStr ''inf''
   \<and> spec_ini_value ''inf'' = VFloat PosInf"
  by code_simp

text \<open>
  Claim C8, amended. The coercion follows the stated order (boolean words before any
  numeric parse, then integer, then float, then parenthesized tuple, then plain string),
  except that the float parse is attempted only when the text holds a point: a text
  without a point that is neither a boolean word nor an integer literal but would parse as
  a float stays a plain string. \<open>1\<close> becomes true, \<open>0\<close> false, and
  \<open>(0.609, 0.343, 0.457)\<close> a tuple of three floats.
\<close>

theorem parse_ini_value_order:
  "parse_ini_value value_str =
     (if lower (strip value_str) \<notin> set [''true'', ''on'', ''yes'', ''1'', ''false'', ''off'', ''no'', ''0'']
         \<and> \<not> contains (strip value_str) ''.''
         \<and> py_int (strip value_str) = None
         \<and> py_float (strip value_str) \<noteq> None
      then VStr (strip value_str)
      else spec_ini_value value_str)
   \<and> parse_ini_value ''1'' = VBool True
   \<and> parse_ini_value ''0'' = VBool False
   \<and> parse_ini_value ''(0.609, 0.343, 0.457)''
       = VTuple [VFloat (Finite (609 / 1000)), VFloat (Finite (343 / 1000)),
                 VFloat (Finite (457 / 1000))]"
proof (intro conjI)
  show "parse_ini_value value_str =
     (if lower (strip value_str) \<notin> set [''true'', ''on'', ''yes'', ''1'', ''false'', ''off'', ''no'', ''0'']
         \<and> \<not> contains (strip value_str) ''.''
         \<and> py_int (strip value_str) = None
         \<and> py_float (strip value_str) \<noteq> None
      then VStr (strip value_str)
      else spec_ini_value value_str)"
    using float_is_not_wrapped [of "strip value_str"]
    by (auto simp: parse_ini_value_def spec_ini_value_def Let_def wrapped_value_def
        split: option.splits)
  show "parse_ini_value ''1'' = VBool True" by code_simp
  show "parse_ini_value ''0'' = VBool False" by code_simp
  show "parse_ini_value ''(0.609, 0.343, 0.457)''
       = VTuple [VFloat (Finite (609 / 1000)), VFloat (Finite (343 / 1000)),
                 VFloat (Finite (457 / 1000))]" by code_simp
qed

text \<open>A text in the gap, and texts outside it.\<close>

theorem parse_ini_value_order_witness:
  "lower (strip ''1e5'') \<notin> set [''true'', ''on'', ''yes'', ''1'', ''false'', ''off'', ''no'', ''0'']
   \<and> \<not> contains (strip ''1e5'') ''.''
   \<and> py_int (strip ''1e5'') = None
   \<and> py_float (strip ''1e5'') \<noteq> None
   \<and> parse_ini_value ''1e5'' = VStr ''1e5''
   \<and> contains (strip '' 2.50 '') ''.''
   \<and> parse_ini_value '' 2.50 '' = spec_ini_value '' 2.50 ''
   \<and> parse_ini_value '' 2.50 '' = VFloat (Finite (5 / 2))
   \<and> parse_ini_value ''12'' = VInt 12
   \<and> parse_ini_value ''Off'' = VBool False"
proof -
  have a: "lower (strip ''1e5'') \<notin> set [''true'', ''on'', ''yes'', ''1'', ''false'', ''off'', ''no'', ''0'']"
    "\<not> contains (strip ''1e5'') ''.''" "py_int (strip ''1e5'') = None"
    "py_float (strip ''1e5'') \<noteq> None" "strip ''1e5'' = ''1e5''"
    by code_simp+
  have b: "contains (strip '' 2.50 '') ''.''" "spec_ini_value '' 2.50 '' = VFloat (Finite (5 / 2))"
    "parse_ini_value ''12'' = VInt 12" "parse_ini_value ''Off'' = VBool False"
    by code_simp+
  show ?thesis
    using parse_ini_value_order [of "''1e5''"] parse_ini_value_order [of "'' 2.50 ''"] a b
    by simp
qed

section \<open>The comparison engine's equality\<close>

text \<open>
  On two values that are not a boolean with a float, the scalar part of \<open>_values_equal\<close>
  is the rule of the specification: integers compare exactly, which is the tolerance
  comparison of their casts, and a boolean with an integer falls to direct equality
  either way.
\<close>

lemma int_tolerance: "(\<bar>of_int x - of_int y\<bar> < (1 / 10 ^ 10 :: rat)) = (x = y)"
proof
  assume a: "\<bar>of_int x - of_int y\<bar> < (1 / 10 ^ 10 :: rat)"
  have "(1 / 10 ^ 10 :: rat) < 1" by simp
  with a have "\<bar>(of_int (x - y) :: rat)\<bar> < 1" by simp
  then have "\<bar>x - y\<bar> < 1" by (metis of_int_abs of_int_less_1_iff)
  then show "x = y" by simp
qed simp

lemma int_tolerance_scaled: "(\<bar>of_int x - of_int y\<bar> * 10000000000 < (1::rat)) = (x = y)"
  using int_tolerance [of x y] by simp

lemma scalars_equal_follows_spec:
  "\<not> bool_with_float a b \<Longrightarrow> scalars_equal a b = spec_scalars_equal a b"
  by (cases a; cases b)
     (auto simp: scalars_equal_def spec_scalars_equal_def bool_with_float_def is_number_def
        is_float_def spec_numeric_def number_of_def tolerance_def py_eq_flat_def float_eq_def
        int_tolerance_scaled)

text \<open>
  Claim C9 does not hold of the code at a boolean compared with a float. A \<open>bool\<close> is an
  \<open>int\<close> for \<open>isinstance\<close>, so the numeric branch takes the pair and compares with
  tolerance; the boolean branch after it is never reached. \<open>True\<close> and \<open>1.00000000005\<close>
  are equal for \<open>_values_equal\<close>, also as items of two lists, and unequal for direct
  equality, which is what the stated rule gives for a boolean and a float.
\<close>

theorem boolean_compared_with_tolerance:
  "values_equal (VBool True) (VFloat (Finite (1 + 5 / 10 ^ 11)))
   \<and> \<not> py_eq (VBool True) (VFloat (Finite (1 + 5 / 10 ^ 11)))
   \<and> \<not> spec_scalars_equal (VBool True) (VFloat (Finite (1 + 5 / 10 ^ 11)))
   \<and> values_equal (VList [VBool True]) (VList [VFloat (Finite (1 + 5 / 10 ^ 11))])"
  by (simp add: scalars_equal_def spec_scalars_equal_def is_number_def is_float_def
      number_of_def tolerance_def py_eq_flat_def float_eq_def spec_numeric_def)

section \<open>Coercion of string input in set_field_value\<close>

text \<open>
  A field state starts with its current value equal to its original one, and what
  \<open>set_field_value\<close> stores on a boolean, integer or float original is of that type.
\<close>

lemma fresh_state_has_type: "current_value (FieldState v) = state_original_value (FieldState v)"
  by (simp add: FieldState_def)

lemma converted_value_has_type:
  "convert_value_to_type lib v (VBool b) = Inr cv \<Longrightarrow> \<exists>c. cv = VBool c"
  "convert_value_to_type lib v (VInt i) = Inr cv \<Longrightarrow> \<exists>j. cv = VInt j"
  "convert_value_to_type lib v (VFloat f) = Inr cv \<Longrightarrow> \<exists>g. cv = VFloat g"
  by (auto simp: convert_to_int_def convert_to_float_def split: sum.splits if_splits)

lemma field_states_update_config_data [simp]:
  "field_states (update_config_data p v m) = field_states m"
  by (simp add: update_config_data_def)

lemma stored_after_converted:
  assumes "map_of (field_states m) p = Some fs"
    and "convert_value_to_type lib v (state_original_value fs) = Inr cv"
  shows "stored_after lib now p v m
           = Some (if py_eq cv (current_value fs) then current_value fs else cv)"
  using assms
  by (simp add: stored_after_def set_field_value_def set_value_def get_field_value_def
      notify_observers_def Let_def update_conv')

lemma py_eq_flat_int [simp]: "py_eq_flat (VInt a) (VInt b) = (a = b)"
  by (simp add: py_eq_flat_def float_eq_def)

lemma py_eq_flat_float [simp]: "py_eq_flat (VFloat (Finite q)) (VFloat g) = (g = Finite q)"
  by (auto simp: py_eq_flat_def float_eq_def)

lemma py_eq_flat_bool [simp]: "py_eq_flat (VBool a) (VBool b) = (a = b)"
  by (simp add: py_eq_flat_def float_eq_def)

lemma py_eq_flat_str [simp]: "py_eq_flat (VStr s) c = (c = VStr s)"
  by (cases c) (auto simp: py_eq_flat_def)

lemma py_float_123: "py_float ''123'' = Some (Finite 123)"
  by code_simp

lemma strip_123: "strip ''123'' = ''123''"
  by code_simp

lemma truncate_123: "truncate 123 = 123"
  by (simp add: truncate_def)

lemma convert_int_123: "convert_to_int (VStr ''123'') = Inr (VInt 123)"
  by (simp add: convert_to_int_def py_float_123 strip_123 truncate_123)

lemma convert_float_123: "convert_to_float (VStr ''123'') = Inr (VFloat (Finite 123))"
  by (simp add: convert_to_float_def py_float_123 strip_123)

lemma convert_int_invalid: "py_float s = None \<Longrightarrow> convert_to_int (VStr s) = Inr (VInt 0)"
  by (simp add: convert_to_int_def caught_def)

lemma convert_float_invalid: "py_float s = None \<Longrightarrow> convert_to_float (VStr s) = Inr (VFloat (Finite 0))"
  by (simp add: convert_to_float_def caught_def)

lemma convert_other:
  "\<forall>b. orig \<noteq> VBool b \<Longrightarrow> \<forall>i. orig \<noteq> VInt i \<Longrightarrow> \<forall>f. orig \<noteq> VFloat f \<Longrightarrow>
   convert_value_to_type lib (VStr s) orig = Inr (VStr s)"
  by (cases orig) auto

text \<open>
  Claim C7 as stated fails for a field whose original value is an array: the string input
  is stored as a string, not coerced to the type of the original value. The same holds for
  every original that is no boolean, integer or float.
\<close>

theorem array_field_stores_string:
  "map_option state_original_value (map_of (field_states example_model) ''ini.B.Color'')
     = Some (VTuple [VFloat (Finite (609 / 1000)), VFloat (Finite (343 / 1000))])
   \<and> stored_after example_lib 0 ''ini.B.Color'' (VStr ''123'') example_model = Some (VStr ''123'')
   \<and> stored_after example_lib 0 ''ini.B.Color'' (VStr ''(1.0, 2.0)'') example_model
       = Some (VStr ''(1.0, 2.0)'')"
  by code_simp

text \<open>
  On an integer field the text \<open>inf\<close> makes \<open>int(float(value))\<close> raise OverflowError,
  which the handler for ValueError and TypeError does not catch. The amended claim says
  nothing about such text.
\<close>

lemma infinity_on_int_field_raises:
  "set_field_value example_lib 0 ''A.Quality'' (VStr ''inf'') example_model = Inl OverflowError"
  by code_simp

text \<open>
  Claim C7, amended. For a known field path whose current value has the type of its
  original value: on an integer original the input \<open>123\<close> stores the integer 123 and
  text that \<open>float\<close> rejects stores 0; on a float original \<open>123\<close> stores 123.0 and
  rejected text stores 0.0; on a boolean original a string stores its truthiness (true
  unless empty); none of these raises. On every other original (string, null, array) the
  string input is stored as it is.
\<close>

theorem string_input_coercion:
  assumes "map_of (field_states m) p = Some fs"
  shows
    "(\<forall>i j. state_original_value fs = VInt i \<and> current_value fs = VInt j \<longrightarrow>
        stored_after lib now p (VStr ''123'') m = Some (VInt 123)
        \<and> (\<forall>s. py_float s = None \<longrightarrow> stored_after lib now p (VStr s) m = Some (VInt 0)))
     \<and> (\<forall>f g. state_original_value fs = VFloat f \<and> current_value fs = VFloat g \<longrightarrow>
        stored_after lib now p (VStr ''123'') m = Some (VFloat (Finite 123))
        \<and> (\<forall>s. py_float s = None \<longrightarrow>
              stored_after lib now p (VStr s) m = Some (VFloat (Finite 0))))
     \<and> (\<forall>b c. state_original_value fs = VBool b \<and> current_value fs = VBool c \<longrightarrow>
        (\<forall>s. stored_after lib now p (VStr s) m = Some (VBool (s \<noteq> []))))
     \<and> ((\<forall>b. state_original_value fs \<noteq> VBool b) \<and> (\<forall>i. state_original_value fs \<noteq> VInt i)
          \<and> (\<forall>f. state_original_value fs \<noteq> VFloat f) \<longrightarrow>
        (\<forall>s. stored_after lib now p (VStr s) m = Some (VStr s)))"
proof (intro conjI allI impI)
  fix i j
  assume a: "state_original_value fs = VInt i \<and> current_value fs = VInt j"
  then have c: "convert_value_to_type lib (VStr ''123'') (state_original_value fs) = Inr (VInt 123)"
    by (simp add: convert_int_123)
  show "stored_after lib now p (VStr ''123'') m = Some (VInt 123)"
    using stored_after_converted [OF assms c] a by simp
  fix s
  assume "py_float s = None"
  then have c: "convert_value_to_type lib (VStr s) (state_original_value fs) = Inr (VInt 0)"
    using a by (simp add: convert_int_invalid)
  show "stored_after lib now p (VStr s) m = Some (VInt 0)"
    using stored_after_converted [OF assms c] a by simp
next
  fix f g
  assume a: "state_original_value fs = VFloat f \<and> current_value fs = VFloat g"
  then have c: "convert_value_to_type lib (VStr ''123'') (state_original_value fs)
                 = Inr (VFloat (Finite 123))"
    by (simp add: convert_float_123)
  show "stored_after lib now p (VStr ''123'') m = Some (VFloat (Finite 123))"
    using stored_after_converted [OF assms c] a by simp
  fix s
  assume "py_float s = None"
  then have c: "convert_value_to_type lib (VStr s) (state_original_value fs)
                 = Inr (VFloat (Finite 0))"
    using a by (simp add: convert_float_invalid)
  show "stored_after lib now p (VStr s) m = Some (VFloat (Finite 0))"
    using stored_after_converted [OF assms c] a by simp
next
  fix b c s
  assume a: "state_original_value fs = VBool b \<and> current_value fs = VBool c"
  then have c: "convert_value_to_type lib (VStr s) (state_original_value fs)
                 = Inr (VBool (s \<noteq> []))"
    by simp
  show "stored_after lib now p (VStr s) m = Some (VBool (s \<noteq> []))"
    using stored_after_converted [OF assms c] a by auto
next
  fix s
  assume a: "(\<forall>b. state_original_value fs \<noteq> VBool b) \<and> (\<forall>i. state_original_value fs \<noteq> VInt i)
          \<and> (\<forall>f. state_original_value fs \<noteq> VFloat f)"
  then have c: "convert_value_to_type lib (VStr s) (state_original_value fs) = Inr (VStr s)"
    by (simp add: convert_other)
  show "stored_after lib now p (VStr s) m = Some (VStr s)"
    using stored_after_converted [OF assms c] by simp
qed

text \<open>The integer field and the tuple field of the example model.\<close>

theorem string_input_coercion_witness:
  "map_option state_original_value (map_of (field_states example_model) ''A.Quality'')
     = Some (VInt 5)
   \<and> map_option current_value (map_of (field_states example_model) ''A.Quality'') = Some (VInt 5)
   \<and> stored_after example_lib 0 ''A.Quality'' (VStr ''123'') example_model = Some (VInt 123)
   \<and> py_float ''12abc'' = None
   \<and> stored_after example_lib 0 ''A.Quality'' (VStr ''12abc'') example_model = Some (VInt 0)
   \<and> stored_after example_lib 0 ''ini.B.Color'' (VStr ''abc'') example_model = Some (VStr ''abc'')"
proof -
  have "map_of (field_states example_model) ''A.Quality'' \<noteq> None" by code_simp
  then obtain fs where fs: "map_of (field_states example_model) ''A.Quality'' = Some fs" by auto
  have o: "map_option state_original_value (map_of (field_states example_model) ''A.Quality'')
     = Some (VInt 5)" by code_simp
  have c: "map_option current_value (map_of (field_states example_model) ''A.Quality'')
     = Some (VInt 5)" by code_simp
  have n: "py_float ''12abc'' = None" by code_simp
  have "map_of (field_states example_model) ''ini.B.Color'' \<noteq> None" by code_simp
  then obtain gs where gs: "map_of (field_states example_model) ''ini.B.Color'' = Some gs" by auto
  have t: "map_option state_original_value (map_of (field_states example_model) ''ini.B.Color'')
     = Some (VTuple [VFloat (Finite (609 / 1000)), VFloat (Finite (343 / 1000))])" by code_simp
  show ?thesis
    using string_input_coercion [OF fs, of example_lib 0]
      string_input_coercion [OF gs, of example_lib 0] fs gs o c n t
    by auto
qed


end
